theory Spec2Isabelle
  imports Main "HOL-Library.Word"
begin

section \<open>Values shared by the whole driver\<close>

text \<open>
  The gRPC status codes the driver produces itself, and the error values that travel
  through it. \<open>spanner.ToSpannerError (status.Error code msg)\<close> is \<open>SpannerError code msg\<close>,
  a bare \<open>status.Errorf code msg\<close> is \<open>StatusError code msg\<close>, \<open>driver.ErrBadConn\<close> is the
  sentinel \<open>ErrBadConn\<close>, a \<open>strconv\<close> failure is \<open>NumError s\<close>, and an error produced by a
  backing client is \<open>ClientError n\<close>.
\<close>

datatype codes = InvalidArgument | FailedPrecondition | Aborted

datatype error =
    SpannerError codes string
  | StatusError codes string
  | ErrBadConn
  | ErrAbortedDueToConcurrentModification
  | NumError string
  | ClientError nat

fun ErrCode :: "error \<Rightarrow> codes option" where
  "ErrCode (SpannerError c m) = Some c"
| "ErrCode (StatusError c m) = Some c"
| "ErrCode e = None"

text \<open>\<open>time.Time\<close> as nanoseconds; \<open>time.Time{}\<close> is \<open>zeroTime\<close>.\<close>

datatype Time = Time int

definition zeroTime :: Time where
  "zeroTime = Time 0"

text \<open>\<open>spanner.TimestampBound\<close>: the zero value \<open>TimestampBound{}\<close> and any other bound.\<close>

datatype TimestampBound = TimestampBoundZero | TimestampBoundOf nat

datatype driverValue = VNil | VInt64 "64 word" | VString string | VOther nat

record statement =
  SQL :: string
  Params :: "(string \<times> driverValue) list"

definition NewStatement :: "string \<Rightarrow> statement" where
  "NewStatement query = \<lparr>SQL = query, Params = []\<rparr>"

text \<open>\<open>driver.Result\<close>: the sentinel \<open>driver.ResultNoRows\<close> or the driver's own \<open>&result{rowsAffected}\<close>.\<close>

datatype driverResult = ResultNoRows | Result "64 word"

subsection \<open>Batches and the two integer-valued enumerations\<close>

type_synonym batchType = int

definition ddl :: batchType where "ddl = 0"
definition dml :: batchType where "dml = 1"

record batch =
  tp :: batchType
  statements :: "statement list"

type_synonym AutocommitDMLMode = int

definition Transactional :: AutocommitDMLMode where "Transactional = 0"
definition PartitionedNonAtomic :: AutocommitDMLMode where "PartitionedNonAtomic = 1"

definition AutocommitDMLMode_String :: "AutocommitDMLMode \<Rightarrow> string" where
  "AutocommitDMLMode_String mode =
     (if mode = Transactional then ''Transactional''
      else if mode = PartitionedNonAtomic then ''Partitioned_Non_Atomic''
      else '''')"

subsection \<open>The backing clients\<close>

text \<open>
  The Spanner client and the database-admin client are external. Every call the driver
  makes to them is appended to a log of requests, and what the call returns is read from
  an environment whose answers may depend on the whole log so far.
\<close>

datatype clientOption =
    WithEndpoint string
  | WithCredentialsFile string
  | WithGRPCDialOption_WithInsecure
  | WithoutAuthentication
  | WithUserAgent string

text \<open>A \<open>float64\<close> is kept as its 64 bits; the driver only stores and forwards it.\<close>

datatype float64 = Float64 "64 word"

record SessionPoolConfig =
  MinOpened :: "64 word"
  MaxOpened :: "64 word"
  WriteSessions :: float64

datatype request =
    UpdateDatabaseDdl nat string "string list"
  | OperationWait nat string "string list"
  | ReadWriteTransaction_Update nat statement
  | ReadWriteTransaction_BatchUpdate nat "statement list"
  | Tx_BatchUpdate nat "statement list"
  | PartitionedUpdate nat statement
  | Single_Query nat statement TimestampBound
  | ReadOnlyTransaction_WithTimestampBound nat TimestampBound
  | NewReadWriteStmtBasedTransaction nat
  | Client_Close nat
  | AdminClient_Close nat
  | NewClientWithConfig string SessionPoolConfig "clientOption list"
  | NewDatabaseAdminClient "clientOption list"

record spannerEnv =
  onUpdateDatabaseDdl :: "request list \<Rightarrow> error option"
  onOperationWait :: "request list \<Rightarrow> error option"
  onUpdate :: "request list \<Rightarrow> 64 word \<times> error option"
  onReadWriteTransaction :: "request list \<Rightarrow> Time \<times> error option"
  onBatchUpdate :: "request list \<Rightarrow> 64 word list \<times> error option"
  onPartitionedUpdate :: "request list \<Rightarrow> 64 word \<times> error option"
  onNewReadWriteStmtBasedTransaction :: "request list \<Rightarrow> error option"
  onAdminClose :: "request list \<Rightarrow> error option"
  onNewClient :: "request list \<Rightarrow> error option"
  onNewAdminClient :: "request list \<Rightarrow> error option"

text \<open>
  A pointer to a client, to a transaction of the client library or to a connector is a
  natural number. Client and transaction handles are numbered from 1 by the position of
  the request that created them, so two creations never give the same handle; 0 is nil.
\<close>

datatype rowIterator = SingleUseRows nat statement TimestampBound | TxRows nat statement

subsection \<open>Transactions and connections\<close>

text \<open>
  \<open>contextTransaction\<close> is an interface with the two implementations that \<open>BeginTx\<close>
  builds. The read-write one carries its nested DML batch and the retry flag frozen at
  begin time; the \<open>close\<close> callbacks are the functions \<open>closeReadOnly\<close> and
  \<open>closeReadWrite\<close> below.
\<close>

datatype contextTransaction =
    readOnlyTransaction nat
  | readWriteTransaction nat "batch option" bool

record conn =
  connector :: nat
  closed :: bool
  client :: nat
  adminClient :: nat
  tx :: "contextTransaction option"
  commitTs :: "Time option"
  database :: string
  retryAborts :: bool
  execSingleQuery :: "nat \<Rightarrow> statement \<Rightarrow> TimestampBound \<Rightarrow> request list \<Rightarrow> rowIterator \<times> request list"
  execSingleDMLTransactional ::
    "spannerEnv \<Rightarrow> nat \<Rightarrow> statement \<Rightarrow> request list \<Rightarrow> (64 word \<times> Time \<times> error option) \<times> request list"
  execSingleDMLPartitioned ::
    "spannerEnv \<Rightarrow> nat \<Rightarrow> statement \<Rightarrow> request list \<Rightarrow> (64 word \<times> error option) \<times> request list"
  batch :: "batch option"
  autocommitDMLMode :: AutocommitDMLMode
  readOnlyStaleness :: TimestampBound

definition closeReadOnly :: "conn \<Rightarrow> conn" where
  "closeReadOnly c = c\<lparr>tx := None\<rparr>"

definition closeReadWrite :: "Time option \<Rightarrow> error option \<Rightarrow> conn \<Rightarrow> conn" where
  "closeReadWrite ts commitErr c =
     (let c1 = c\<lparr>tx := None\<rparr>
      in if commitErr = None then c1\<lparr>commitTs := ts\<rparr> else c1)"

definition inTransaction :: "conn \<Rightarrow> bool" where
  "inTransaction c = (tx c \<noteq> None)"

definition inReadOnlyTransaction :: "conn \<Rightarrow> bool" where
  "inReadOnlyTransaction c =
     (case tx c of Some (readOnlyTransaction h) \<Rightarrow> True | _ \<Rightarrow> False)"

definition inReadWriteTransaction :: "conn \<Rightarrow> bool" where
  "inReadWriteTransaction c =
     (case tx c of Some (readWriteTransaction h b r) \<Rightarrow> True | _ \<Rightarrow> False)"

subsection \<open>Simple accessors of the connection\<close>

definition CommitTimestamp :: "conn \<Rightarrow> (Time \<times> error option) \<times> conn" where
  "CommitTimestamp c =
     (case commitTs c of
        None \<Rightarrow> ((zeroTime, Some (SpannerError FailedPrecondition
          ''this connection has not executed a read/write transaction that committed successfully'')), c)
      | Some t \<Rightarrow> ((t, None), c))"

definition InDDLBatch :: "conn \<Rightarrow> bool" where
  "InDDLBatch c = (case batch c of None \<Rightarrow> False | Some b \<Rightarrow> tp b = ddl)"

definition InDMLBatch :: "conn \<Rightarrow> bool" where
  "InDMLBatch c =
     ((case batch c of None \<Rightarrow> False | Some b \<Rightarrow> tp b = dml) \<or>
      (case tx c of Some (readWriteTransaction h b r) \<Rightarrow> b \<noteq> None | _ \<Rightarrow> False))"

definition inBatch :: "conn \<Rightarrow> bool" where
  "inBatch c = (InDDLBatch c \<or> InDMLBatch c)"

definition startBatchDDL :: "conn \<Rightarrow> (driverResult option \<times> error option) \<times> conn" where
  "startBatchDDL c =
     (if batch c \<noteq> None then
        ((None, Some (SpannerError FailedPrecondition
           ''This connection already has an active batch.'')), c)
      else if inTransaction c then
        ((None, Some (SpannerError FailedPrecondition
           ''This connection has an active transaction. DDL batches in transactions are not supported.'')), c)
      else ((Some ResultNoRows, None), c\<lparr>batch := Some \<lparr>tp = ddl, statements = []\<rparr>\<rparr>))"

definition StartBatchDDL :: "conn \<Rightarrow> error option \<times> conn" where
  "StartBatchDDL c = (case startBatchDDL c of ((r, err), c') \<Rightarrow> (err, c'))"


subsection \<open>Helpers that live in other files of the driver\<close>

text \<open>
  The client-side statement parser, the DDL recogniser, the statement builder, the row
  wrapper and the methods of the two transaction types are not part of \<open>driver.go\<close>.
  They are taken as parameters: each is a function of the connection and the request log,
  returning what the Go function returns together with the connection and log it leaves.
  A client-side statement is named by a number.
\<close>

type_synonym namedValue = "string \<times> driverValue"

type_synonym 'a effect = "conn \<Rightarrow> request list \<Rightarrow> 'a \<times> conn \<times> request list"

record helpers =
  parseClientSideStatement :: "conn \<Rightarrow> string \<Rightarrow> nat option \<times> error option"
  clientStmt_ExecContext :: "nat \<Rightarrow> namedValue list \<Rightarrow> (driverResult option \<times> error option) effect"
  clientStmt_QueryContext :: "nat \<Rightarrow> namedValue list \<Rightarrow> (error + rowIterator) effect"
  isDDL :: "string \<Rightarrow> bool \<times> error option"
  prepareSpannerStmt :: "string \<Rightarrow> namedValue list \<Rightarrow> statement \<times> error option"
  rows_Next :: "rowIterator \<Rightarrow> request list \<Rightarrow> (driverValue \<times> error option) \<times> request list"
  rows_Close :: "rowIterator \<Rightarrow> request list \<Rightarrow> request list"
  tx_Query :: "contextTransaction \<Rightarrow> statement \<Rightarrow> rowIterator effect"
  tx_ExecContext :: "contextTransaction \<Rightarrow> statement \<Rightarrow> (64 word \<times> error option) effect"
  tx_Rollback :: "contextTransaction \<Rightarrow> (error option) effect"
  tx_StartBatchDML :: "contextTransaction \<Rightarrow> (driverResult option \<times> error option) effect"
  tx_RunBatch :: "contextTransaction \<Rightarrow> (driverResult option \<times> error option) effect"
  tx_AbortBatch :: "contextTransaction \<Rightarrow> (driverResult option \<times> error option) effect"

subsection \<open>Batches on the connection\<close>

definition startBatchDML :: "helpers \<Rightarrow> (driverResult option \<times> error option) effect" where
  "startBatchDML h c rs =
     (case tx c of
        Some t \<Rightarrow> tx_StartBatchDML h t c rs
      | None \<Rightarrow>
          if batch c \<noteq> None then
            ((None, Some (SpannerError FailedPrecondition
               ''This connection already has an active batch.'')), c, rs)
          else if inReadOnlyTransaction c then
            ((None, Some (SpannerError FailedPrecondition
               ''This connection has an active read-only transaction. Read-only transactions cannot execute DML batches.'')), c, rs)
          else ((Some ResultNoRows, None), c\<lparr>batch := Some \<lparr>tp = dml, statements = []\<rparr>\<rparr>, rs))"

definition sum_affected :: "64 word list \<Rightarrow> 64 word" where
  "sum_affected affected = foldl (\<lambda>s c. s + c) 0 affected"

definition submitDDL ::
  "spannerEnv \<Rightarrow> statement list \<Rightarrow> (driverResult option \<times> error option) effect" where
  \<comment> \<open>the tail of \<open>execDDL\<close>, reached when no DML and no DDL batch is open\<close>
  "submitDDL env stmts c rs =
     (if length stmts > 0 then
        (let ddlStatements = map SQL stmts;
             rs1 = rs @ [UpdateDatabaseDdl (adminClient c) (database c) ddlStatements]
         in case onUpdateDatabaseDdl env rs1 of
              Some err \<Rightarrow> ((None, Some err), c, rs1)
            | None \<Rightarrow>
                (let rs2 = rs1 @ [OperationWait (adminClient c) (database c) ddlStatements]
                 in case onOperationWait env rs2 of
                      Some err \<Rightarrow> ((None, Some err), c, rs2)
                    | None \<Rightarrow> ((Some ResultNoRows, None), c, rs2)))
      else ((Some ResultNoRows, None), c, rs))"

definition execDDL ::
  "spannerEnv \<Rightarrow> statement list \<Rightarrow> (driverResult option \<times> error option) effect" where
  "execDDL env stmts c rs =
     (case batch c of
        None \<Rightarrow> submitDDL env stmts c rs
      | Some b \<Rightarrow>
          if tp b = dml then
            ((None, Some (SpannerError FailedPrecondition
               ''This connection has an active DML batch'')), c, rs)
          else if tp b = ddl then
            ((Some ResultNoRows, None),
             c\<lparr>batch := Some (b\<lparr>statements := statements b @ stmts\<rparr>)\<rparr>, rs)
          else submitDDL env stmts c rs)"

definition execBatchDML ::
  "spannerEnv \<Rightarrow> statement list \<Rightarrow> (driverResult option \<times> error option) effect" where
  "execBatchDML env stmts c rs =
     (if length stmts = 0 then ((Some (Result 0), None), c, rs)
      else
        (case tx c of
           Some (readWriteTransaction rwTx b r) \<Rightarrow>
             (let rs1 = rs @ [Tx_BatchUpdate rwTx stmts];
                  (affected, err) = onBatchUpdate env rs1
              in ((Some (Result (sum_affected affected)), err), c, rs1))
         | Some (readOnlyTransaction roTx) \<Rightarrow>
             ((None, Some (StatusError FailedPrecondition
                ''connection is in a transaction that is not a read/write transaction'')), c, rs)
         | None \<Rightarrow>
             (let rs1 = rs @ [ReadWriteTransaction_BatchUpdate (client c) stmts];
                  (affected, err1) = onBatchUpdate env rs1;
                  (ts, err) = onReadWriteTransaction env rs1
              in ((Some (Result (sum_affected affected)), err), c, rs1))))"

definition runDDLBatch ::
  "spannerEnv \<Rightarrow> batch \<Rightarrow> (driverResult option \<times> error option) effect" where
  \<comment> \<open>\<open>b\<close> is the batch \<open>c.batch\<close> points to; \<open>runBatch\<close> has checked that it is not nil\<close>
  "runDDLBatch env b c rs = execDDL env (statements b) (c\<lparr>batch := None\<rparr>) rs"

definition runDMLBatch ::
  "spannerEnv \<Rightarrow> batch \<Rightarrow> (driverResult option \<times> error option) effect" where
  "runDMLBatch env b c rs = execBatchDML env (statements b) (c\<lparr>batch := None\<rparr>) rs"

function decimal :: "nat \<Rightarrow> string" where
  "decimal n =
     (if n < 10 then [char_of (48 + n)]
      else decimal (n div 10) @ [char_of (48 + n mod 10)])"
  by pat_completeness auto
termination
  by (relation "measure (\<lambda>n. n)") auto

definition Sprintf_d :: "int \<Rightarrow> string" where
  "Sprintf_d i = (if i < 0 then CHR ''-'' # decimal (nat (- i)) else decimal (nat i))"

definition runBatch ::
  "spannerEnv \<Rightarrow> helpers \<Rightarrow> (driverResult option \<times> error option) effect" where
  "runBatch env h c rs =
     (case tx c of
        Some t \<Rightarrow> tx_RunBatch h t c rs
      | None \<Rightarrow>
          (case batch c of
             None \<Rightarrow>
               ((None, Some (SpannerError FailedPrecondition
                  ''This connection does not have an active batch'')), c, rs)
           | Some b \<Rightarrow>
               if tp b = ddl then runDDLBatch env b c rs
               else if tp b = dml then runDMLBatch env b c rs
               else ((None, Some (SpannerError InvalidArgument
                       (''Unknown batch type: '' @ Sprintf_d (tp b)))), c, rs)))"

definition abortBatch :: "helpers \<Rightarrow> (driverResult option \<times> error option) effect" where
  "abortBatch h c rs =
     (case tx c of
        Some t \<Rightarrow> tx_AbortBatch h t c rs
      | None \<Rightarrow> ((Some ResultNoRows, None), c\<lparr>batch := None\<rparr>, rs))"

definition StartBatchDML :: "helpers \<Rightarrow> (error option) effect" where
  "StartBatchDML h c rs = (case startBatchDML h c rs of ((r, err), c', rs') \<Rightarrow> (err, c', rs'))"

definition RunBatch :: "spannerEnv \<Rightarrow> helpers \<Rightarrow> (error option) effect" where
  "RunBatch env h c rs = (case runBatch env h c rs of ((r, err), c', rs') \<Rightarrow> (err, c', rs'))"

definition AbortBatch :: "helpers \<Rightarrow> (error option) effect" where
  "AbortBatch h c rs = (case abortBatch h c rs of ((r, err), c', rs') \<Rightarrow> (err, c', rs'))"

subsection \<open>Autocommit execution\<close>

definition queryInSingleUse ::
  "nat \<Rightarrow> statement \<Rightarrow> TimestampBound \<Rightarrow> request list \<Rightarrow> rowIterator \<times> request list" where
  "queryInSingleUse cl st tb rs = (SingleUseRows cl st tb, rs @ [Single_Query cl st tb])"

definition execInNewRWTransaction ::
  "spannerEnv \<Rightarrow> nat \<Rightarrow> statement \<Rightarrow> request list \<Rightarrow> (64 word \<times> Time \<times> error option) \<times> request list" where
  "execInNewRWTransaction env cl st rs =
     (let rs1 = rs @ [ReadWriteTransaction_Update cl st];
          (count, updErr) = onUpdate env rs1;
          rowsAffected = count;
          (ts, err) = onReadWriteTransaction env rs1
      in if err \<noteq> None then ((0, zeroTime, err), rs1)
         else ((rowsAffected, ts, None), rs1))"

definition execAsPartitionedDML ::
  "spannerEnv \<Rightarrow> nat \<Rightarrow> statement \<Rightarrow> request list \<Rightarrow> (64 word \<times> error option) \<times> request list" where
  "execAsPartitionedDML env cl st rs =
     (let rs1 = rs @ [PartitionedUpdate cl st] in (onPartitionedUpdate env rs1, rs1))"

definition QueryContext ::
  "helpers \<Rightarrow> string \<Rightarrow> namedValue list \<Rightarrow> (error + rowIterator) effect" where
  "QueryContext h query args c rs =
     (case parseClientSideStatement h c query of
        (clientStmt, Some err) \<Rightarrow> (Inl err, c, rs)
      | (Some clientStmt, None) \<Rightarrow> clientStmt_QueryContext h clientStmt args c rs
      | (None, None) \<Rightarrow>
          (let c1 = c\<lparr>commitTs := None\<rparr>
           in case prepareSpannerStmt h query args of
                (stmt, Some err) \<Rightarrow> (Inl err, c1, rs)
              | (stmt, None) \<Rightarrow>
                  (case tx c1 of
                     None \<Rightarrow>
                       (let (iter, rs1) = execSingleQuery c1 (client c1) stmt (readOnlyStaleness c1) rs
                        in (Inr iter, c1, rs1))
                   | Some t \<Rightarrow>
                       (let (iter, c2, rs1) = tx_Query h t stmt c1 rs
                        in (Inr iter, c2, rs1)))))"

definition appendToBatch :: "statement \<Rightarrow> conn \<Rightarrow> conn" where
  \<comment> \<open>\<open>c.batch.statements = append(c.batch.statements, ss)\<close>, run only when \<open>c.batch\<close> is not nil\<close>
  "appendToBatch ss c =
     (case batch c of
        None \<Rightarrow> c
      | Some b \<Rightarrow> c\<lparr>batch := Some (b\<lparr>statements := statements b @ [ss]\<rparr>)\<rparr>)"

definition execResult :: "64 word \<Rightarrow> error option \<Rightarrow> driverResult option \<times> error option" where
  \<comment> \<open>the last four lines of \<open>ExecContext\<close>\<close>
  "execResult rowsAffected err =
     (if err \<noteq> None then (None, err) else (Some (Result rowsAffected), None))"

definition ExecContext ::
  "spannerEnv \<Rightarrow> helpers \<Rightarrow> string \<Rightarrow> namedValue list \<Rightarrow> (driverResult option \<times> error option) effect" where
  "ExecContext env h query args c rs =
     (case parseClientSideStatement h c query of
        (stmt, Some err) \<Rightarrow> ((None, Some err), c, rs)
      | (Some stmt, None) \<Rightarrow> clientStmt_ExecContext h stmt args c rs
      | (None, None) \<Rightarrow>
          (let c1 = c\<lparr>commitTs := None\<rparr>
           in case isDDL h query of
                (is, Some err) \<Rightarrow> ((None, Some err), c1, rs)
              | (True, None) \<Rightarrow>
                  if inTransaction c1 then
                    ((None, Some (SpannerError FailedPrecondition
                       ''cannot execute DDL as part of a transaction'')), c1, rs)
                  else execDDL env [NewStatement query] c1 rs
              | (False, None) \<Rightarrow>
                  (case prepareSpannerStmt h query args of
                     (ss, Some err) \<Rightarrow> ((None, Some err), c1, rs)
                   | (ss, None) \<Rightarrow>
                       (case tx c1 of
                          None \<Rightarrow>
                            if InDMLBatch c1 then (execResult 0 None, appendToBatch ss c1, rs)
                            else if autocommitDMLMode c1 = Transactional then
                              (let ((rowsAffected, ts, err), rs1) =
                                     execSingleDMLTransactional c1 env (client c1) ss rs;
                                   c2 = (if err = None then c1\<lparr>commitTs := Some ts\<rparr> else c1)
                               in (execResult rowsAffected err, c2, rs1))
                            else if autocommitDMLMode c1 = PartitionedNonAtomic then
                              (let ((rowsAffected, err), rs1) =
                                     execSingleDMLPartitioned c1 env (client c1) ss rs
                               in (execResult rowsAffected err, c1, rs1))
                            else
                              ((None, Some (StatusError FailedPrecondition
                                 (''connection in invalid state for DML statements: '' @
                                  AutocommitDMLMode_String (autocommitDMLMode c1)))), c1, rs)
                        | Some t \<Rightarrow>
                            (let ((rowsAffected, err), c2, rs1) = tx_ExecContext h t ss c1 rs
                             in (execResult rowsAffected err, c2, rs1))))))"

subsection \<open>Ping and ResetSession\<close>

definition Ping :: "helpers \<Rightarrow> (error option) effect" where
  "Ping h c rs =
     (if closed c then (Some ErrBadConn, c, rs)
      else
        (case QueryContext h ''SELECT 1'' [] c rs of
           (Inl err, c1, rs1) \<Rightarrow> (Some ErrBadConn, c1, rs1)
         | (Inr rows, c1, rs1) \<Rightarrow>
             (let ((v, err), rs2) = rows_Next h rows rs1;
                  rs3 = rows_Close h rows rs2
              in if err \<noteq> None then (Some ErrBadConn, c1, rs3)
                 else if v \<noteq> VInt64 1 then (Some ErrBadConn, c1, rs3)
                 else (None, c1, rs3))))"

definition resetFields :: "conn \<Rightarrow> conn" where
  \<comment> \<open>the five assignments that end \<open>ResetSession\<close>\<close>
  "resetFields c =
     c\<lparr>commitTs := None, batch := None, retryAborts := True,
       autocommitDMLMode := Transactional, readOnlyStaleness := TimestampBoundZero\<rparr>"

definition ResetSession :: "helpers \<Rightarrow> (error option) effect" where
  "ResetSession h c rs =
     (if closed c then (Some ErrBadConn, c, rs)
      else
        (case tx c of
           None \<Rightarrow> (None, resetFields c, rs)
         | Some t \<Rightarrow>
             (case tx_Rollback h t c rs of
                (Some err, c1, rs1) \<Rightarrow> (Some ErrBadConn, c1, rs1)
              | (None, c1, rs1) \<Rightarrow> (None, resetFields c1, rs1))))"

definition IsValid :: "conn \<Rightarrow> bool" where
  "IsValid c = (\<not> closed c)"


subsection \<open>Beginning a transaction\<close>

definition BeginTx ::
  "spannerEnv \<Rightarrow> bool \<Rightarrow> (contextTransaction option \<times> error option) effect" where
  \<comment> \<open>the Boolean is \<open>opts.ReadOnly\<close>\<close>
  "BeginTx env readOnly c rs =
     (if inTransaction c then
        ((None, Some (SpannerError FailedPrecondition ''already in a transaction'')), c, rs)
      else if inBatch c then
        ((None, Some (StatusError FailedPrecondition
           ''This connection has an active batch. Run or abort the batch before starting a new transaction.'')), c, rs)
      else if readOnly then
        (let rs1 = rs @ [ReadOnlyTransaction_WithTimestampBound (client c) (readOnlyStaleness c)];
             t = readOnlyTransaction (Suc (length rs))
         in ((Some t, None), c\<lparr>tx := Some t\<rparr>, rs1))
      else
        (let rs1 = rs @ [NewReadWriteStmtBasedTransaction (client c)]
         in case onNewReadWriteStmtBasedTransaction env rs1 of
              Some err \<Rightarrow> ((None, Some err), c, rs1)
            | None \<Rightarrow>
                (let t = readWriteTransaction (Suc (length rs)) None (retryAborts c)
                 in ((Some t, None), c\<lparr>tx := Some t, commitTs := None\<rparr>, rs1))))"

section \<open>Connection descriptors\<close>

text \<open>
  A Go function either returns or panics; \<open>Panics\<close> carries the runtime's message.
\<close>

datatype 'a go = Returns 'a | Panics string

subsection \<open>The regular expression of a descriptor\<close>

text \<open>
  \<open>regexp\<close> is the part of Go's regular-expression syntax that \<open>dsnRegExp\<close> uses:
  literals, character classes, \<open>.\<close> (any byte but a newline), concatenation,
  alternation, the greedy \<open>*\<close>, \<open>+\<close> and \<open>?\<close>, and capturing groups with their index and
  name (the empty name for an unnamed group). \<open>run\<close> is a backtracking matcher that
  prefers the left alternative and the longer repetition, which is the match Go's
  leftmost-first semantics selects; \<open>k\<close> is what remains to be matched after the
  expression at hand. A descriptor is a string of bytes; every class of \<open>dsnRegExp\<close>
  except \<open>.\<close> holds ASCII only, so matching bytes and matching runes agree.
\<close>

datatype regexp =
    Lit string
  | Cls string
  | AnyCharNotNL
  | Cat regexp regexp
  | Alt regexp regexp
  | Star regexp
  | Plus regexp
  | Opt regexp
  | Cap nat string regexp

type_synonym captures = "string option list"

fun stripPrefix :: "string \<Rightarrow> string \<Rightarrow> string option" where
  "stripPrefix [] s = Some s"
| "stripPrefix (x # xs) [] = None"
| "stripPrefix (x # xs) (y # ys) = (if x = y then stripPrefix xs ys else None)"

fun weight :: "regexp \<Rightarrow> nat" where
  "weight (Lit l) = 0"
| "weight (Cls cs) = 0"
| "weight AnyCharNotNL = 0"
| "weight (Cat a b) = Suc (weight a + weight b)"
| "weight (Alt a b) = Suc (weight a + weight b)"
| "weight (Star a) = Suc (weight a)"
| "weight (Plus a) = Suc (Suc (weight a))"
| "weight (Opt a) = Suc (weight a)"
| "weight (Cap i n a) = Suc (weight a)"

function run ::
  "regexp \<Rightarrow> (string \<Rightarrow> captures \<Rightarrow> captures option) \<Rightarrow> string \<Rightarrow> captures \<Rightarrow> captures option" where
  "run (Lit l) k s c = (case stripPrefix l s of None \<Rightarrow> None | Some s' \<Rightarrow> k s' c)"
| "run (Cls cs) k s c =
     (case s of [] \<Rightarrow> None | x # xs \<Rightarrow> if List.member cs x then k xs c else None)"
| "run AnyCharNotNL k s c =
     (case s of [] \<Rightarrow> None | x # xs \<Rightarrow> if x \<noteq> CHR 0x0A then k xs c else None)"
| "run (Cat a b) k s c = run a (\<lambda>s' c'. run b k s' c') s c"
| "run (Alt a b) k s c = (case run a k s c of Some r \<Rightarrow> Some r | None \<Rightarrow> run b k s c)"
| "run (Star a) k s c =
     (case run a (\<lambda>s' c'. if length s' < length s then run (Star a) k s' c' else None) s c of
        Some r \<Rightarrow> Some r
      | None \<Rightarrow> k s c)"
| "run (Plus a) k s c = run a (\<lambda>s' c'. run (Star a) k s' c') s c"
| "run (Opt a) k s c = (case run a k s c of Some r \<Rightarrow> Some r | None \<Rightarrow> k s c)"
| "run (Cap i n a) k s c =
     run a (\<lambda>s' c'. k s' (c'[i := Some (take (length s - length s') s)])) s c"
  by pat_completeness auto
termination
  by (relation "inv_image (less_than <*lex*> less_than) (\<lambda>(r, k, s, c). (weight r, length s))")
    auto

fun capNames :: "regexp \<Rightarrow> string list" where
  "capNames (Cat a b) = capNames a @ capNames b"
| "capNames (Alt a b) = capNames a @ capNames b"
| "capNames (Star a) = capNames a"
| "capNames (Plus a) = capNames a"
| "capNames (Opt a) = capNames a"
| "capNames (Cap i n a) = n # capNames a"
| "capNames r = []"

definition SubexpNames :: "regexp \<Rightarrow> string list" where
  "SubexpNames re = [] # capNames re"

fun search :: "regexp \<Rightarrow> string \<Rightarrow> string list option" where
  "search re s =
     (case run re (\<lambda>s' c. Some (c[0 := Some (take (length s - length s') s)])) s
             (replicate (length (SubexpNames re)) None) of
        Some c \<Rightarrow> Some (map (\<lambda>x. case x of None \<Rightarrow> [] | Some t \<Rightarrow> t) c)
      | None \<Rightarrow> (case s of [] \<Rightarrow> None | x # xs \<Rightarrow> search re xs))"

definition FindStringSubmatch :: "regexp \<Rightarrow> string \<Rightarrow> string list" where
  \<comment> \<open>the nil slice of "no match" is the empty list\<close>
  "FindStringSubmatch re s = (case search re s of None \<Rightarrow> [] | Some m \<Rightarrow> m)"

definition lower_az :: string where
  "lower_az = ''abcdefghijklmnopqrstuvwxyz''"

definition upper_AZ :: string where
  "upper_AZ = ''ABCDEFGHIJKLMNOPQRSTUVWXYZ''"

definition digit_09 :: string where
  "digit_09 = ''0123456789''"

definition word_class :: string where
  \<comment> \<open>\<open>\w\<close>\<close>
  "word_class = digit_09 @ upper_AZ @ ''_'' @ lower_az"

definition dsnRegExp :: regexp where
  "dsnRegExp =
    Cat (Opt (Cap 1 [] (Cat (Cap 2 ''HOSTGROUP''
            (Cat (Plus (Cls (word_class @ ''.-'')))
            (Cat (Star (Cat (Lit ''.'') (Plus (Cls (word_class @ ''.-'')))))
                 (Plus (Cls (word_class @ ''-._~:/?#[]@!$&'' @ [CHR 0x27] @ ''()*+,;=.''))))))
          (Lit ''/''))))
   (Cat (Lit ''projects/'')
   (Cat (Cap 3 ''PROJECTGROUP''
          (Cap 4 [] (Alt (Plus (Cap 5 [] (Alt (Cls lower_az) (Alt (Cls ''-.:'') (Cls digit_09)))))
                         (Cap 6 [] (Lit ''DEFAULT_PROJECT_ID'')))))
   (Cat (Opt (Cap 7 [] (Cat (Lit ''/instances/'')
             (Cat (Cap 8 ''INSTANCEGROUP''
                    (Plus (Cap 9 [] (Alt (Cls lower_az) (Alt (Cls ''-'') (Cls digit_09))))))
                  (Opt (Cap 10 [] (Cat (Lit ''/databases/'')
                         (Cap 11 ''DATABASEGROUP''
                           (Plus (Cap 12 [] (Alt (Cls lower_az)
                              (Alt (Cls ''-'') (Alt (Cls ''_'') (Cls digit_09))))))))))))))
        (Opt (Cap 13 [] (Cat (Cap 14 [] (Cls ''?|;''))
                             (Cap 15 ''PARAMSGROUP'' (Star AnyCharNotNL))))))))"

subsection \<open>The functions of \<open>strings\<close> and \<open>strconv\<close> that the driver calls\<close>

fun Split :: "char \<Rightarrow> string \<Rightarrow> string list" where
  "Split sep [] = [[]]"
| "Split sep (x # xs) =
     (if x = sep then [] # Split sep xs
      else (case Split sep xs of [] \<Rightarrow> [[x]] | y # ys \<Rightarrow> (x # y) # ys))"

fun Cut :: "char \<Rightarrow> string \<Rightarrow> (string \<times> string) option" where
  "Cut sep [] = None"
| "Cut sep (x # xs) =
     (if x = sep then Some ([], xs)
      else (case Cut sep xs of None \<Rightarrow> None | Some (a, b) \<Rightarrow> Some (x # a, b)))"

definition SplitN2 :: "char \<Rightarrow> string \<Rightarrow> string list" where
  \<comment> \<open>\<open>strings.SplitN(s, sep, 2)\<close>\<close>
  "SplitN2 sep s = (case Cut sep s of None \<Rightarrow> [s] | Some (a, b) \<Rightarrow> [a, b])"

definition asciiLower :: "string \<Rightarrow> string" where
  \<comment> \<open>lower-cases the letters \<open>A\<close>..\<open>Z\<close>; on a string of ASCII bytes this is what
      \<open>strings.ToLower\<close> returns\<close>
  "asciiLower s = map (\<lambda>x. case map_of (zip upper_AZ lower_az) x of None \<Rightarrow> x | Some l \<Rightarrow> l) s"

definition ParseBool :: "string \<Rightarrow> bool \<times> error option" where
  "ParseBool str =
     (if List.member [''1'', ''t'', ''T'', ''TRUE'', ''true'', ''True''] str then (True, None)
      else if List.member [''0'', ''f'', ''F'', ''FALSE'', ''false'', ''False''] str then (False, None)
      else (False, Some (NumError str)))"

fun digitsValue :: "nat \<Rightarrow> string \<Rightarrow> nat option" where
  "digitsValue acc [] = Some acc"
| "digitsValue acc (x # xs) =
     (if List.member digit_09 x then digitsValue (10 * acc + (of_char x - 48)) xs else None)"

definition ParseUint :: "string \<Rightarrow> 64 word \<times> error option" where
  \<comment> \<open>\<open>strconv.ParseUint(s, 10, 64)\<close>\<close>
  "ParseUint s =
     (if s = [] then (0, Some (NumError s))
      else (case digitsValue 0 s of
              None \<Rightarrow> (0, Some (NumError s))
            | Some n \<Rightarrow> if n < 2 ^ 64 then (of_nat n, None) else (- 1, Some (NumError s))))"

text \<open>
  What the driver takes from libraries and is not computed here: the default pool
  configuration of the Spanner client, the parser of floating-point numbers, and
  \<open>strings.ToLower\<close>, which lower-cases every Unicode letter and rewrites invalid UTF-8.
  They are parameters of the functions that call them.
\<close>

record library =
  DefaultSessionPoolConfig :: SessionPoolConfig
  ParseFloat :: "string \<Rightarrow> float64 \<times> error option"
  ToLower :: "string \<Rightarrow> string"

subsection \<open>Parsing a descriptor\<close>

record connectorConfig =
  host :: string
  project :: string
  cfg_instance :: string
  cfg_database :: string
  params :: "string \<rightharpoonup> string"

fun paramsLoop ::
  "library \<Rightarrow> string list \<Rightarrow> (string \<rightharpoonup> string) \<Rightarrow> (string \<rightharpoonup> string) \<times> error option" where
  "paramsLoop lib [] ps = (ps, None)"
| "paramsLoop lib (keyValueString # rest) ps =
     (if keyValueString = [] then paramsLoop lib rest ps
      else (case SplitN2 CHR ''='' keyValueString of
              [k, v] \<Rightarrow> paramsLoop lib rest (ps(ToLower lib k \<mapsto> v))
            | _ \<Rightarrow> (Map.empty, Some (SpannerError InvalidArgument
                      (''invalid connection property: '' @ keyValueString)))))"

definition extractConnectorParams ::
  "library \<Rightarrow> string \<Rightarrow> (string \<rightharpoonup> string) \<times> error option" where
  "extractConnectorParams lib paramsString =
     (if paramsString = [] then (Map.empty, None)
      else paramsLoop lib (Split CHR '';'' paramsString) Map.empty)"

fun matchesLoop ::
  "(nat \<times> string) list \<Rightarrow> string list \<Rightarrow> (string \<rightharpoonup> string) \<Rightarrow> (string \<rightharpoonup> string) go" where
  "matchesLoop [] match matches = Returns matches"
| "matchesLoop ((i, name) # rest) match matches =
     (if i \<noteq> 0 \<and> name \<noteq> [] then
        (if i < length match then matchesLoop rest match (matches(name \<mapsto> match ! i))
         else Panics ''index out of range'')
      else matchesLoop rest match matches)"

definition lookup :: "(string \<rightharpoonup> string) \<Rightarrow> string \<Rightarrow> string" where
  \<comment> \<open>reading a Go map: the empty string for a missing key\<close>
  "lookup m k = (case m k of None \<Rightarrow> [] | Some v \<Rightarrow> v)"

definition extractConnectorConfig ::
  "library \<Rightarrow> string \<Rightarrow> (connectorConfig \<times> error option) go" where
  "extractConnectorConfig lib dsn =
     (let match = FindStringSubmatch dsnRegExp dsn
      in case matchesLoop (enumerate 0 (SubexpNames dsnRegExp)) match Map.empty of
           Panics msg \<Rightarrow> Panics msg
         | Returns matches \<Rightarrow>
             (case extractConnectorParams lib (lookup matches ''PARAMSGROUP'') of
                (ps, Some err) \<Rightarrow>
                  Returns (\<lparr>host = [], project = [], cfg_instance = [], cfg_database = [],
                            params = Map.empty\<rparr>, Some err)
              | (ps, None) \<Rightarrow>
                  Returns (\<lparr>host = lookup matches ''HOSTGROUP'',
                            project = lookup matches ''PROJECTGROUP'',
                            cfg_instance = lookup matches ''INSTANCEGROUP'',
                            cfg_database = lookup matches ''DATABASEGROUP'',
                            params = ps\<rparr>, None)))"


section \<open>The connector registry\<close>

text \<open>
  One \<open>Driver\<close> is registered by \<open>init\<close>; its \<open>connectors\<close> map sends a descriptor to a
  pointer to a connector. Connectors are shared objects, so they live in a heap: a
  pointer is an index into the list \<open>heap\<close>, and allocating appends to the list.
  \<open>initClient\<close> is the flag of the \<open>sync.Once\<close>; \<open>connCount\<close> is an \<open>int32\<close>.
\<close>

record connector =
  dsn :: string
  connectorConfig :: connectorConfig
  spannerClientConfig :: SessionPoolConfig
  options :: "clientOption list"
  retryAbortsInternally :: bool
  initClient :: bool
  connector_client :: nat
  clientErr :: "error option"
  connector_adminClient :: nat
  adminClientErr :: "error option"
  connCount :: "32 word"

record driverWorld =
  connectors :: "string \<rightharpoonup> nat"
  heap :: "connector list"

definition userAgent :: string where
  "userAgent = ''go-sql-spanner/0.1''"

definition connectorOptions :: "connectorConfig \<Rightarrow> clientOption list" where
  \<comment> \<open>the three tests of \<open>newConnector\<close> that fill \<open>opts\<close>\<close>
  "connectorOptions cfg =
     (let opts0 = [];
          opts1 = (if host cfg \<noteq> [] then opts0 @ [WithEndpoint (host cfg)] else opts0);
          opts2 = (case params cfg ''credentials'' of
                     Some strval \<Rightarrow> opts1 @ [WithCredentialsFile strval]
                   | None \<Rightarrow> opts1)
      in case params cfg ''useplaintext'' of
           Some strval \<Rightarrow>
             (case ParseBool strval of
                (val, None) \<Rightarrow>
                  if val then opts2 @ [WithGRPCDialOption_WithInsecure, WithoutAuthentication]
                  else opts2
              | (val, Some err) \<Rightarrow> opts2)
         | None \<Rightarrow> opts2)"

definition connectorRetry :: "connectorConfig \<Rightarrow> bool" where
  "connectorRetry cfg =
     (case params cfg ''retryabortsinternally'' of
        Some strval \<Rightarrow>
          (case ParseBool strval of
             (val, None) \<Rightarrow> if \<not> val then False else True
           | (val, Some err) \<Rightarrow> True)
      | None \<Rightarrow> True)"

definition connectorPool :: "library \<Rightarrow> connectorConfig \<Rightarrow> SessionPoolConfig" where
  "connectorPool lib cfg =
     (let config0 = DefaultSessionPoolConfig lib;
          config1 = (case params cfg ''minsessions'' of
                       Some strval \<Rightarrow>
                         (case ParseUint strval of
                            (val, None) \<Rightarrow> config0\<lparr>MinOpened := val\<rparr>
                          | (val, Some err) \<Rightarrow> config0)
                     | None \<Rightarrow> config0);
          config2 = (case params cfg ''maxsessions'' of
                       Some strval \<Rightarrow>
                         (case ParseUint strval of
                            (val, None) \<Rightarrow> config1\<lparr>MaxOpened := val\<rparr>
                          | (val, Some err) \<Rightarrow> config1)
                     | None \<Rightarrow> config1)
      in case params cfg ''writesessions'' of
           Some strval \<Rightarrow>
             (case ParseFloat lib strval of
                (val, None) \<Rightarrow> config2\<lparr>WriteSessions := val\<rparr>
              | (val, Some err) \<Rightarrow> config2)
         | None \<Rightarrow> config2)"

definition newConnector ::
  "library \<Rightarrow> string \<Rightarrow> driverWorld \<Rightarrow> ((nat option \<times> error option) \<times> driverWorld) go" where
  "newConnector lib name w =
     (case connectors w name of
        Some a \<Rightarrow> Returns ((Some a, None), w)
      | None \<Rightarrow>
          (case extractConnectorConfig lib name of
             Panics msg \<Rightarrow> Panics msg
           | Returns (cfg, Some err) \<Rightarrow> Returns ((None, Some err), w)
           | Returns (cfg, None) \<Rightarrow>
               (let c = \<lparr>dsn = name,
                         connectorConfig = cfg,
                         spannerClientConfig = connectorPool lib cfg,
                         options = connectorOptions cfg,
                         retryAbortsInternally = connectorRetry cfg,
                         initClient = False,
                         connector_client = 0,
                         clientErr = None,
                         connector_adminClient = 0,
                         adminClientErr = None,
                         connCount = 0\<rparr>;
                    a = length (heap w)
                in Returns ((Some a, None),
                     w\<lparr>connectors := (connectors w)(name \<mapsto> a), heap := heap w @ [c]\<rparr>))))"

definition initClients ::
  "spannerEnv \<Rightarrow> string \<Rightarrow> clientOption list \<Rightarrow> connector \<Rightarrow> request list \<Rightarrow> connector \<times> request list" where
  \<comment> \<open>the function given to \<open>c.initClient.Do\<close>\<close>
  "initClients env databaseName opts k rs =
     (let rs1 = rs @ [NewClientWithConfig databaseName (spannerClientConfig k) opts];
          cErr = onNewClient env rs1;
          cl = (if cErr = None then Suc (length rs) else 0);
          rs2 = rs1 @ [NewDatabaseAdminClient opts];
          aErr = onNewAdminClient env rs2;
          acl = (if aErr = None then Suc (length rs1) else 0)
      in (k\<lparr>initClient := True, connector_client := cl, clientErr := cErr,
            connector_adminClient := acl, adminClientErr := aErr\<rparr>, rs2))"

definition openDriverConn ::
  "spannerEnv \<Rightarrow> nat \<Rightarrow> driverWorld \<Rightarrow> request list \<Rightarrow>
     ((conn option \<times> error option) \<times> driverWorld \<times> request list) go" where
  "openDriverConn env a w rs =
     (if a < length (heap w) then
        (let k = heap w ! a;
             opts = options k @ [WithUserAgent userAgent];
             databaseName = ''projects/'' @ project (connectorConfig k) @
                            ''/instances/'' @ cfg_instance (connectorConfig k) @
                            ''/databases/'' @ cfg_database (connectorConfig k);
             (k1, rs1) = (if initClient k then (k, rs) else initClients env databaseName opts k rs);
             w1 = w\<lparr>heap := (heap w)[a := k1]\<rparr>
         in if clientErr k1 \<noteq> None then Returns ((None, clientErr k1), w1, rs1)
            else if adminClientErr k1 \<noteq> None then Returns ((None, adminClientErr k1), w1, rs1)
            else
              Returns ((Some \<lparr>connector = a,
                              closed = False,
                              client = connector_client k1,
                              adminClient = connector_adminClient k1,
                              tx = None,
                              commitTs = None,
                              database = databaseName,
                              retryAborts = retryAbortsInternally k1,
                              execSingleQuery = queryInSingleUse,
                              execSingleDMLTransactional = execInNewRWTransaction,
                              execSingleDMLPartitioned = execAsPartitionedDML,
                              batch = None,
                              autocommitDMLMode = 0,
                              readOnlyStaleness = TimestampBoundZero\<rparr>, None),
                       w\<lparr>heap := (heap w)[a := k1\<lparr>connCount := connCount k1 + 1\<rparr>]\<rparr>, rs1))
      else Panics ''invalid memory address or nil pointer dereference'')"

definition Connect ::
  "spannerEnv \<Rightarrow> nat \<Rightarrow> driverWorld \<Rightarrow> request list \<Rightarrow>
     ((conn option \<times> error option) \<times> driverWorld \<times> request list) go" where
  "Connect env a w rs = openDriverConn env a w rs"

definition OpenConnector ::
  "library \<Rightarrow> string \<Rightarrow> driverWorld \<Rightarrow> ((nat option \<times> error option) \<times> driverWorld) go" where
  "OpenConnector lib name w = newConnector lib name w"

definition Open ::
  "spannerEnv \<Rightarrow> library \<Rightarrow> string \<Rightarrow> driverWorld \<Rightarrow> request list \<Rightarrow>
     ((conn option \<times> error option) \<times> driverWorld \<times> request list) go" where
  "Open env lib name w rs =
     (case newConnector lib name w of
        Panics msg \<Rightarrow> Panics msg
      | Returns ((c, Some err), w1) \<Rightarrow> Returns ((None, Some err), w1, rs)
      | Returns ((None, None), w1) \<Rightarrow> Panics ''invalid memory address or nil pointer dereference''
      | Returns ((Some a, None), w1) \<Rightarrow> openDriverConn env a w1 rs)"

definition Close ::
  "spannerEnv \<Rightarrow> conn \<Rightarrow> driverWorld \<Rightarrow> request list \<Rightarrow>
     (error option \<times> conn \<times> driverWorld \<times> request list) go" where
  "Close env c w rs =
     (if connector c < length (heap w) then
        (let k = heap w ! connector c;
             count = connCount k - 1;
             w1 = w\<lparr>heap := (heap w)[connector c := k\<lparr>connCount := count\<rparr>]\<rparr>
         in if 0 <s count then Returns (None, c, w1, rs)
            else
              (let w2 = w1\<lparr>connectors := (connectors w1)(dsn k := None)\<rparr>;
                   rs1 = rs @ [Client_Close (client c)];
                   rs2 = rs1 @ [AdminClient_Close (adminClient c)]
               in Returns (onAdminClose env rs2, c, w2, rs2)))
      else Panics ''invalid memory address or nil pointer dereference'')"


definition validDescriptor :: "library \<Rightarrow> string \<Rightarrow> bool" where
  "validDescriptor lib name =
     (case extractConnectorConfig lib name of
        Returns (cfg, None) \<Rightarrow> True
      | Returns (cfg, Some err) \<Rightarrow> False
      | Panics msg \<Rightarrow> False)"

section \<open>The retry of an aborted read-write transaction\<close>

text \<open>
  Modelled from the spec: the abort-retry protocol of the read-write transaction. The file
  that implements \<open>readWriteTransaction\<close> is not among the sources, so the definitions of
  this section follow the specification's description of the protocol (its section 4.6 and
  the design note on replay-based retry).
\<close>

text \<open>
  Modelled from the spec: the result of one statement, and the append-only log that the
  transaction owns, holding each statement it has issued successfully with the result it
  observed. The transaction also carries its transactional context and the retry flag.
\<close>

datatype reply = Rows "driverValue list list" | RowCount "64 word" | AbortReply | Failure error

type_synonym transactionLog = "(statement \<times> reply) list"

record rwTransaction =
  rwContext :: nat
  rwLog :: transactionLog
  rwRetryAborts :: bool

datatype replayOutcome = Replayed | Differs | AbortedAgain

text \<open>
  Modelled from the spec: the replay of the log in a fresh transactional context. The
  database \<open>db\<close> answers a statement inside a numbered context, given the statements already
  run in that context. The statements are re-executed in their original order; an answer
  that is not identical to the logged result ends the replay with \<open>Differs\<close>, an Abort
  ends it with \<open>AbortedAgain\<close>.
\<close>

fun replay ::
  "(nat \<Rightarrow> statement list \<Rightarrow> reply) \<Rightarrow> nat \<Rightarrow> statement list \<Rightarrow> transactionLog \<Rightarrow> replayOutcome" where
  "replay db ctx done [] = Replayed"
| "replay db ctx done ((st, r) # rest) =
     (let r' = db ctx (done @ [st])
      in if r' = AbortReply then AbortedAgain
         else if r' = r then replay db ctx (done @ [st]) rest
         else Differs)"

definition abortedError :: error where
  "abortedError = SpannerError Aborted ''transaction was aborted''"

text \<open>
  Modelled from the spec: the retry procedure. A replay that matches continues the
  transaction in the fresh context; a replay that differs abandons the retry with the
  concurrent-modification error; an Abort during the replay restarts the procedure in
  another fresh context, up to a cap on the number of attempts, after which the Abort is
  surfaced. The second component lists the contexts that were opened.
\<close>

fun retry ::
  "(nat \<Rightarrow> statement list \<Rightarrow> reply) \<Rightarrow> nat \<Rightarrow> nat \<Rightarrow> rwTransaction \<Rightarrow> (error + rwTransaction) \<times> nat list" where
  "retry db 0 fresh t = (Inl abortedError, [])"
| "retry db (Suc attempts) fresh t =
     (case replay db fresh [] (rwLog t) of
        Replayed \<Rightarrow> (Inr (t\<lparr>rwContext := fresh\<rparr>), [fresh])
      | Differs \<Rightarrow> (Inl ErrAbortedDueToConcurrentModification, [fresh])
      | AbortedAgain \<Rightarrow>
          (case retry db attempts (Suc fresh) t of (res, opened) \<Rightarrow> (res, fresh # opened)))"

text \<open>
  Modelled from the spec: what the transaction does when the database reports an Abort.
  With retries enabled it runs the retry procedure; with retries disabled the Abort is
  surfaced at once.
\<close>

definition onAbort ::
  "(nat \<Rightarrow> statement list \<Rightarrow> reply) \<Rightarrow> nat \<Rightarrow> nat \<Rightarrow> rwTransaction \<Rightarrow> (error + rwTransaction) \<times> nat list" where
  "onAbort db maxAttempts fresh t =
     (if rwRetryAborts t then retry db maxAttempts fresh t else (Inl abortedError, []))"

section \<open>Concrete values for checking the theorems on examples\<close>

definition demoEnv :: spannerEnv where
  "demoEnv =
     \<lparr>onUpdateDatabaseDdl = (\<lambda>rs. None),
      onOperationWait = (\<lambda>rs. None),
      onUpdate = (\<lambda>rs. (1, None)),
      onReadWriteTransaction = (\<lambda>rs. (Time 42, None)),
      onBatchUpdate = (\<lambda>rs. ([], None)),
      onPartitionedUpdate = (\<lambda>rs. (7, None)),
      onNewReadWriteStmtBasedTransaction = (\<lambda>rs. None),
      onAdminClose = (\<lambda>rs. None),
      onNewClient = (\<lambda>rs. None),
      onNewAdminClient = (\<lambda>rs. None)\<rparr>"

definition demoLib :: library where
  "demoLib =
     \<lparr>DefaultSessionPoolConfig = \<lparr>MinOpened = 100, MaxOpened = 400, WriteSessions = Float64 0\<rparr>,
      ParseFloat = (\<lambda>s. (Float64 0, Some (NumError s))),
      ToLower = asciiLower\<rparr>"

definition emptyWorld :: driverWorld where
  "emptyWorld = \<lparr>connectors = Map.empty, heap = []\<rparr>"

definition demoName :: string where
  "demoName = ''projects/p/instances/i/databases/d''"

definition demoConn :: conn where
  "demoConn =
     \<lparr>connector = 0, closed = False, client = 1, adminClient = 2, tx = None, commitTs = None,
      database = ''projects/p/instances/i/databases/d'', retryAborts = True,
      execSingleQuery = queryInSingleUse,
      execSingleDMLTransactional = execInNewRWTransaction,
      execSingleDMLPartitioned = execAsPartitionedDML,
      batch = None, autocommitDMLMode = 0, readOnlyStaleness = TimestampBoundZero\<rparr>"

definition demoRollback :: "contextTransaction \<Rightarrow> (error option) effect" where
  "demoRollback t c rs =
     (case t of
        readOnlyTransaction roTx \<Rightarrow> (None, closeReadOnly c, rs)
      | readWriteTransaction rwTx b r \<Rightarrow> (None, closeReadWrite None None c, rs))"

definition demoHelpers :: helpers where
  "demoHelpers =
     \<lparr>parseClientSideStatement = (\<lambda>c query. (None, None)),
      clientStmt_ExecContext = (\<lambda>n args c rs. ((Some ResultNoRows, None), c, rs)),
      clientStmt_QueryContext = (\<lambda>n args c rs. (Inl ErrBadConn, c, rs)),
      isDDL = (\<lambda>query. (take 7 query = ''CREATE '', None)),
      prepareSpannerStmt = (\<lambda>query args. (\<lparr>SQL = query, Params = args\<rparr>, None)),
      rows_Next = (\<lambda>it rs. ((VInt64 1, None), rs)),
      rows_Close = (\<lambda>it rs. rs),
      tx_Query = (\<lambda>t st c rs. (TxRows 0 st, c, rs)),
      tx_ExecContext = (\<lambda>t st c rs. ((0, None), c, rs)),
      tx_Rollback = demoRollback,
      tx_StartBatchDML = (\<lambda>t c rs. ((Some ResultNoRows, None), c, rs)),
      tx_RunBatch = (\<lambda>t c rs. ((Some ResultNoRows, None), c, rs)),
      tx_AbortBatch = (\<lambda>t c rs. ((Some ResultNoRows, None), c, rs))\<rparr>"

definition demoDDL :: string where
  "demoDDL = ''CREATE TABLE t (id INT64) PRIMARY KEY (id)''"

definition demoDML :: string where
  "demoDML = ''UPDATE t SET v = 1 WHERE id = 2''"

definition failingEnv :: spannerEnv where
  "failingEnv =
     demoEnv\<lparr>onOperationWait := (\<lambda>rs. Some (ClientError 1)),
              onReadWriteTransaction := (\<lambda>rs. (Time 0, Some (ClientError 2))),
              onPartitionedUpdate := (\<lambda>rs. (0, Some (ClientError 3)))\<rparr>"

definition demoConnector :: connector where
  "demoConnector =
     \<lparr>dsn = demoName,
      connectorConfig = \<lparr>host = [], project = ''p'', cfg_instance = ''i'', cfg_database = ''d'',
                          params = Map.empty\<rparr>,
      spannerClientConfig = DefaultSessionPoolConfig demoLib,
      options = [],
      retryAbortsInternally = True,
      initClient = True,
      connector_client = 1,
      clientErr = None,
      connector_adminClient = 2,
      adminClientErr = None,
      connCount = 1\<rparr>"

definition demoWorld :: driverWorld where
  "demoWorld = \<lparr>connectors = [demoName \<mapsto> 0], heap = [demoConnector]\<rparr>"

definition demoLog :: "request list" where
  "demoLog =
     [NewClientWithConfig demoName (DefaultSessionPoolConfig demoLib) [WithUserAgent userAgent],
      NewDatabaseAdminClient [WithUserAgent userAgent]]"

definition demoStatement :: statement where
  "demoStatement = \<lparr>SQL = ''SELECT v FROM t WHERE id = 2'', Params = []\<rparr>"

definition demoTransaction :: rwTransaction where
  "demoTransaction =
     \<lparr>rwContext = 0, rwLog = [(demoStatement, Rows [[VInt64 1]])], rwRetryAborts = True\<rparr>"

definition demoDatabase :: "nat \<Rightarrow> statement list \<Rightarrow> reply" where
  \<comment> \<open>context 1 aborts; from context 2 on, the row read by the statement has changed\<close>
  "demoDatabase ctx sts =
     (if ctx = 0 then Rows [[VInt64 1]]
      else if ctx = 1 then AbortReply
      else Rows [[VInt64 5]])"

section \<open>Theorems\<close>

subsection \<open>The commit timestamp\<close>

text \<open>
  C10: \<open>CommitTimestamp\<close> returns a \<open>FailedPrecondition\<close> error whenever the connection's last
  commit timestamp is absent, and otherwise returns the stored timestamp; in both cases the
  connection is left as it was.
\<close>

theorem CommitTimestamp_spec:
  "(commitTs c = None \<longrightarrow>
      (\<exists>msg. CommitTimestamp c = ((zeroTime, Some (SpannerError FailedPrecondition msg)), c)))
   \<and> (\<forall>ts. commitTs c = Some ts \<longrightarrow> CommitTimestamp c = ((ts, None), c))"
  by (simp add: CommitTimestamp_def)

theorem CommitTimestamp_spec_witness:
  "(\<exists>msg. CommitTimestamp demoConn =
            ((zeroTime, Some (SpannerError FailedPrecondition msg)), demoConn))
   \<and> CommitTimestamp (demoConn\<lparr>commitTs := Some (Time 5)\<rparr>) =
       ((Time 5, None), demoConn\<lparr>commitTs := Some (Time 5)\<rparr>)"
  using CommitTimestamp_spec [of demoConn]
    CommitTimestamp_spec [of "demoConn\<lparr>commitTs := Some (Time 5)\<rparr>"]
  by (simp add: demoConn_def)

subsection \<open>Batches\<close>

text \<open>
  C7: \<open>StartBatchDDL\<close> fails with \<open>FailedPrecondition\<close> whenever a batch is already open (the
  connection's batch of either kind, or the DML batch nested in a read-write transaction)
  or a transaction is active, and then leaves the connection unchanged; otherwise it opens
  an empty DDL batch.
\<close>

theorem StartBatchDDL_spec:
  "(batch c \<noteq> None \<or> inBatch c \<or> inTransaction c \<longrightarrow>
      (\<exists>msg. StartBatchDDL c = (Some (SpannerError FailedPrecondition msg), c)))
   \<and> (batch c = None \<and> \<not> inTransaction c \<longrightarrow>
      StartBatchDDL c = (None, c\<lparr>batch := Some \<lparr>tp = ddl, statements = []\<rparr>\<rparr>))"
  by (auto simp: StartBatchDDL_def startBatchDDL_def inBatch_def InDDLBatch_def InDMLBatch_def
      inTransaction_def split: option.splits contextTransaction.splits)

theorem StartBatchDDL_spec_witness:
  "StartBatchDDL demoConn = (None, demoConn\<lparr>batch := Some \<lparr>tp = ddl, statements = []\<rparr>\<rparr>)
   \<and> (\<exists>msg. StartBatchDDL (demoConn\<lparr>batch := Some \<lparr>tp = dml, statements = []\<rparr>\<rparr>) =
         (Some (SpannerError FailedPrecondition msg),
          demoConn\<lparr>batch := Some \<lparr>tp = dml, statements = []\<rparr>\<rparr>))
   \<and> (\<exists>msg. StartBatchDDL (demoConn\<lparr>tx := Some (readOnlyTransaction 3)\<rparr>) =
         (Some (SpannerError FailedPrecondition msg),
          demoConn\<lparr>tx := Some (readOnlyTransaction 3)\<rparr>))"
  using StartBatchDDL_spec [of demoConn]
    StartBatchDDL_spec [of "demoConn\<lparr>batch := Some \<lparr>tp = dml, statements = []\<rparr>\<rparr>"]
    StartBatchDDL_spec [of "demoConn\<lparr>tx := Some (readOnlyTransaction 3)\<rparr>"]
  by (simp add: demoConn_def inTransaction_def)

text \<open>
  C8: with no transaction active, \<open>RunBatch\<close> on an open DML batch that holds no statement
  succeeds: the result reports 0 affected rows, no request is sent to a backing client (the
  request log is unchanged), and the connection is left without a batch.
\<close>

theorem RunBatch_empty_DML:
  assumes "tx c = None" and "batch c = Some b" and "tp b = dml" and "statements b = []"
  shows "runBatch env h c rs = ((Some (Result 0), None), c\<lparr>batch := None\<rparr>, rs)
         \<and> RunBatch env h c rs = (None, c\<lparr>batch := None\<rparr>, rs)"
  using assms
  by (simp add: RunBatch_def runBatch_def runDMLBatch_def execBatchDML_def ddl_def dml_def)

theorem RunBatch_empty_DML_witness:
  "runBatch demoEnv demoHelpers (demoConn\<lparr>batch := Some \<lparr>tp = dml, statements = []\<rparr>\<rparr>) [] =
     ((Some (Result 0), None), demoConn, [])
   \<and> RunBatch demoEnv demoHelpers (demoConn\<lparr>batch := Some \<lparr>tp = dml, statements = []\<rparr>\<rparr>) [] =
     (None, demoConn, [])"
  using RunBatch_empty_DML [of "demoConn\<lparr>batch := Some \<lparr>tp = dml, statements = []\<rparr>\<rparr>"
      "\<lparr>tp = dml, statements = []\<rparr>" demoEnv demoHelpers "[]"]
  by (simp add: demoConn_def)

subsection \<open>Executing statements in autocommit mode\<close>

lemma demo_parse: "parseClientSideStatement demoHelpers c q = (None, None)"
  by (simp add: demoHelpers_def)

lemma demo_isDDL: "isDDL demoHelpers demoDDL = (True, None)"
  by (simp add: demoHelpers_def demoDDL_def)

lemma demo_isDML: "isDDL demoHelpers demoDML = (False, None)"
  by (simp add: demoHelpers_def demoDML_def)

lemma demo_prepare: "prepareSpannerStmt demoHelpers q args = (\<lparr>SQL = q, Params = args\<rparr>, None)"
  by (simp add: demoHelpers_def)

text \<open>
  C5: an \<open>exec\<close> of a statement that is not a client-side command and that \<open>isDDL\<close>
  recognises as schema DDL is rejected with \<open>FailedPrecondition\<close> when a transaction is
  active; otherwise it is rejected with \<open>FailedPrecondition\<close> when a DML batch is open, it
  is appended to the batch without any request when a DDL batch is open, and with no batch
  open it is sent to the admin client as one \<open>UpdateDatabaseDdl\<close> request whose operation is
  awaited before the call returns (a failed submission returns its error, there being no
  operation to await).
\<close>

theorem ExecContext_DDL:
  assumes "parseClientSideStatement h c query = (None, None)"
      and "isDDL h query = (True, None)"
  shows
   "(tx c \<noteq> None \<longrightarrow>
       (\<exists>msg. ExecContext env h query args c rs =
          ((None, Some (SpannerError FailedPrecondition msg)), c\<lparr>commitTs := None\<rparr>, rs)))
    \<and> (\<forall>b. tx c = None \<and> batch c = Some b \<and> tp b = dml \<longrightarrow>
       (\<exists>msg. ExecContext env h query args c rs =
          ((None, Some (SpannerError FailedPrecondition msg)), c\<lparr>commitTs := None\<rparr>, rs)))
    \<and> (\<forall>b. tx c = None \<and> batch c = Some b \<and> tp b = ddl \<longrightarrow>
       ExecContext env h query args c rs =
         ((Some ResultNoRows, None),
          c\<lparr>commitTs := None,
            batch := Some (b\<lparr>statements := statements b @ [NewStatement query]\<rparr>)\<rparr>, rs))
    \<and> (tx c = None \<and> batch c = None \<longrightarrow>
       (let rs1 = rs @ [UpdateDatabaseDdl (adminClient c) (database c) [query]];
            rs2 = rs1 @ [OperationWait (adminClient c) (database c) [query]]
        in (\<forall>e. onUpdateDatabaseDdl env rs1 = Some e \<longrightarrow>
              ExecContext env h query args c rs = ((None, Some e), c\<lparr>commitTs := None\<rparr>, rs1))
         \<and> (onUpdateDatabaseDdl env rs1 = None \<and> onOperationWait env rs2 = None \<longrightarrow>
              ExecContext env h query args c rs =
                ((Some ResultNoRows, None), c\<lparr>commitTs := None\<rparr>, rs2))
         \<and> (\<forall>e. onUpdateDatabaseDdl env rs1 = None \<and> onOperationWait env rs2 = Some e \<longrightarrow>
              ExecContext env h query args c rs = ((None, Some e), c\<lparr>commitTs := None\<rparr>, rs2))))"
  using assms
  by (auto simp: ExecContext_def execDDL_def submitDDL_def inTransaction_def NewStatement_def
      ddl_def dml_def Let_def)

theorem ExecContext_DDL_witness:
  "(\<exists>msg. ExecContext demoEnv demoHelpers demoDDL [] (demoConn\<lparr>tx := Some (readOnlyTransaction 3)\<rparr>) [] =
      ((None, Some (SpannerError FailedPrecondition msg)), demoConn\<lparr>tx := Some (readOnlyTransaction 3)\<rparr>, []))
   \<and> (\<exists>msg. ExecContext demoEnv demoHelpers demoDDL [] (demoConn\<lparr>batch := Some \<lparr>tp = dml, statements = []\<rparr>\<rparr>) [] =
      ((None, Some (SpannerError FailedPrecondition msg)), demoConn\<lparr>batch := Some \<lparr>tp = dml, statements = []\<rparr>\<rparr>, []))
   \<and> ExecContext demoEnv demoHelpers demoDDL [] (demoConn\<lparr>batch := Some \<lparr>tp = ddl, statements = []\<rparr>\<rparr>) [] =
      ((Some ResultNoRows, None),
       demoConn\<lparr>batch := Some \<lparr>tp = ddl, statements = [\<lparr>SQL = demoDDL, Params = []\<rparr>]\<rparr>\<rparr>, [])
   \<and> ExecContext demoEnv demoHelpers demoDDL [] demoConn [] =
      ((Some ResultNoRows, None), demoConn,
       [UpdateDatabaseDdl 2 demoName [demoDDL], OperationWait 2 demoName [demoDDL]])
   \<and> ExecContext failingEnv demoHelpers demoDDL [] demoConn [] =
      ((None, Some (ClientError 1)), demoConn,
       [UpdateDatabaseDdl 2 demoName [demoDDL], OperationWait 2 demoName [demoDDL]])"
  using
    ExecContext_DDL [OF demo_parse demo_isDDL, of "demoConn\<lparr>tx := Some (readOnlyTransaction 3)\<rparr>" demoEnv "[]" "[]"]
    ExecContext_DDL [OF demo_parse demo_isDDL, of "demoConn\<lparr>batch := Some \<lparr>tp = dml, statements = []\<rparr>\<rparr>" demoEnv "[]" "[]"]
    ExecContext_DDL [OF demo_parse demo_isDDL, of "demoConn\<lparr>batch := Some \<lparr>tp = ddl, statements = []\<rparr>\<rparr>" demoEnv "[]" "[]"]
    ExecContext_DDL [OF demo_parse demo_isDDL, of demoConn demoEnv "[]" "[]"]
    ExecContext_DDL [OF demo_parse demo_isDDL, of demoConn failingEnv "[]" "[]"]
  by (simp add: demoConn_def demoEnv_def failingEnv_def demoName_def NewStatement_def)

text \<open>
  C6: an \<open>exec\<close> of a DML statement with no transaction active and no DML batch open, on a
  connection whose executors are the ones \<open>openDriverConn\<close> installs: in mode
  \<open>Transactional\<close> the statement runs in a new read-write transaction of the client and, on
  success, the commit timestamp becomes the connection's last commit timestamp; in mode
  \<open>PartitionedNonAtomic\<close> it runs as a partitioned update and the connection keeps no commit
  timestamp; any other mode value fails with \<open>FailedPrecondition\<close> without a request.
\<close>

theorem ExecContext_autocommit_DML:
  assumes "parseClientSideStatement h c query = (None, None)"
      and "isDDL h query = (False, None)"
      and "prepareSpannerStmt h query args = (ss, None)"
      and "tx c = None"
      and "\<not> InDMLBatch c"
      and "execSingleDMLTransactional c = execInNewRWTransaction"
      and "execSingleDMLPartitioned c = execAsPartitionedDML"
  shows
   "(autocommitDMLMode c = Transactional \<longrightarrow>
       (let rs1 = rs @ [ReadWriteTransaction_Update (client c) ss]
        in (\<forall>ts. onReadWriteTransaction env rs1 = (ts, None) \<longrightarrow>
              ExecContext env h query args c rs =
                ((Some (Result (fst (onUpdate env rs1))), None), c\<lparr>commitTs := Some ts\<rparr>, rs1))
         \<and> (\<forall>ts e. onReadWriteTransaction env rs1 = (ts, Some e) \<longrightarrow>
              ExecContext env h query args c rs = ((None, Some e), c\<lparr>commitTs := None\<rparr>, rs1))))
    \<and> (autocommitDMLMode c = PartitionedNonAtomic \<longrightarrow>
       (let rs1 = rs @ [PartitionedUpdate (client c) ss]
        in (\<forall>n. onPartitionedUpdate env rs1 = (n, None) \<longrightarrow>
              ExecContext env h query args c rs =
                ((Some (Result n), None), c\<lparr>commitTs := None\<rparr>, rs1))
         \<and> (\<forall>n e. onPartitionedUpdate env rs1 = (n, Some e) \<longrightarrow>
              ExecContext env h query args c rs = ((None, Some e), c\<lparr>commitTs := None\<rparr>, rs1))))
    \<and> (autocommitDMLMode c \<noteq> Transactional \<and> autocommitDMLMode c \<noteq> PartitionedNonAtomic \<longrightarrow>
       (\<exists>msg. ExecContext env h query args c rs =
          ((None, Some (StatusError FailedPrecondition msg)), c\<lparr>commitTs := None\<rparr>, rs)))"
  using assms
  by (auto simp: ExecContext_def InDMLBatch_def execInNewRWTransaction_def
      execAsPartitionedDML_def execResult_def Transactional_def PartitionedNonAtomic_def Let_def
      split: prod.splits)

theorem ExecContext_autocommit_DML_witness:
  "ExecContext demoEnv demoHelpers demoDML [] demoConn [] =
      ((Some (Result 1), None), demoConn\<lparr>commitTs := Some (Time 42)\<rparr>,
       [ReadWriteTransaction_Update 1 \<lparr>SQL = demoDML, Params = []\<rparr>])
   \<and> ExecContext failingEnv demoHelpers demoDML [] demoConn [] =
      ((None, Some (ClientError 2)), demoConn,
       [ReadWriteTransaction_Update 1 \<lparr>SQL = demoDML, Params = []\<rparr>])
   \<and> ExecContext demoEnv demoHelpers demoDML [] (demoConn\<lparr>autocommitDMLMode := PartitionedNonAtomic\<rparr>) [] =
      ((Some (Result 7), None), demoConn\<lparr>autocommitDMLMode := PartitionedNonAtomic\<rparr>,
       [PartitionedUpdate 1 \<lparr>SQL = demoDML, Params = []\<rparr>])
   \<and> ExecContext failingEnv demoHelpers demoDML [] (demoConn\<lparr>autocommitDMLMode := PartitionedNonAtomic\<rparr>) [] =
      ((None, Some (ClientError 3)), demoConn\<lparr>autocommitDMLMode := PartitionedNonAtomic\<rparr>,
       [PartitionedUpdate 1 \<lparr>SQL = demoDML, Params = []\<rparr>])
   \<and> (\<exists>msg. ExecContext demoEnv demoHelpers demoDML [] (demoConn\<lparr>autocommitDMLMode := 2\<rparr>) [] =
      ((None, Some (StatusError FailedPrecondition msg)), demoConn\<lparr>autocommitDMLMode := 2\<rparr>, []))"
  using
    ExecContext_autocommit_DML [OF demo_parse demo_isDML demo_prepare, of demoConn "[]" "[]" demoEnv]
    ExecContext_autocommit_DML [OF demo_parse demo_isDML demo_prepare, of demoConn "[]" "[]" failingEnv]
    ExecContext_autocommit_DML [OF demo_parse demo_isDML demo_prepare, of "demoConn\<lparr>autocommitDMLMode := PartitionedNonAtomic\<rparr>" "[]" "[]" demoEnv]
    ExecContext_autocommit_DML [OF demo_parse demo_isDML demo_prepare, of "demoConn\<lparr>autocommitDMLMode := PartitionedNonAtomic\<rparr>" "[]" "[]" failingEnv]
    ExecContext_autocommit_DML [OF demo_parse demo_isDML demo_prepare, of "demoConn\<lparr>autocommitDMLMode := 2\<rparr>" "[]" "[]" demoEnv]
  by (simp add: demoConn_def demoEnv_def failingEnv_def InDMLBatch_def Transactional_def PartitionedNonAtomic_def)

subsection \<open>Resetting the session; closed connections\<close>

text \<open>
  C9: on a connection that is not closed, \<open>ResetSession\<close> rolls back the open transaction,
  if there is one, and reports \<open>ErrBadConn\<close> when that rollback fails; otherwise it resets
  the last commit timestamp to absent, the batch to none, the retry flag to enabled, the
  autocommit DML mode to \<open>Transactional\<close> and the staleness to the zero bound, and succeeds.
  Without an open transaction it does only this reset.
\<close>

theorem ResetSession_spec:
  assumes "\<not> closed c"
  shows
   "(tx c = None \<longrightarrow>
       ResetSession h c rs =
         (None, c\<lparr>commitTs := None, batch := None, retryAborts := True,
                  autocommitDMLMode := Transactional,
                  readOnlyStaleness := TimestampBoundZero\<rparr>, rs))
    \<and> (\<forall>t c1 rs1. tx c = Some t \<and> tx_Rollback h t c rs = (None, c1, rs1) \<longrightarrow>
       ResetSession h c rs =
         (None, c1\<lparr>commitTs := None, batch := None, retryAborts := True,
                   autocommitDMLMode := Transactional,
                   readOnlyStaleness := TimestampBoundZero\<rparr>, rs1))
    \<and> (\<forall>t e c1 rs1. tx c = Some t \<and> tx_Rollback h t c rs = (Some e, c1, rs1) \<longrightarrow>
       ResetSession h c rs = (Some ErrBadConn, c1, rs1))"
  using assms by (auto simp: ResetSession_def resetFields_def)

theorem ResetSession_spec_witness:
  "ResetSession demoHelpers
      (demoConn\<lparr>commitTs := Some (Time 5), batch := Some \<lparr>tp = ddl, statements = []\<rparr>,
                retryAborts := False, autocommitDMLMode := PartitionedNonAtomic,
                readOnlyStaleness := TimestampBoundOf 10\<rparr>) [] = (None, demoConn, [])
   \<and> ResetSession demoHelpers
      (demoConn\<lparr>tx := Some (readWriteTransaction 3 None False), retryAborts := False\<rparr>) [] =
        (None, demoConn, [])
   \<and> ResetSession (demoHelpers\<lparr>tx_Rollback := (\<lambda>t c rs. (Some (ClientError 4), c, rs))\<rparr>)
      (demoConn\<lparr>tx := Some (readWriteTransaction 3 None False), retryAborts := False\<rparr>) [] =
        (Some ErrBadConn,
         demoConn\<lparr>tx := Some (readWriteTransaction 3 None False), retryAborts := False\<rparr>, [])"
  using
    ResetSession_spec [of "demoConn\<lparr>commitTs := Some (Time 5), batch := Some \<lparr>tp = ddl, statements = []\<rparr>,
                retryAborts := False, autocommitDMLMode := PartitionedNonAtomic,
                readOnlyStaleness := TimestampBoundOf 10\<rparr>" demoHelpers "[]"]
    ResetSession_spec [of "demoConn\<lparr>tx := Some (readWriteTransaction 3 None False), retryAborts := False\<rparr>" demoHelpers "[]"]
    ResetSession_spec [of "demoConn\<lparr>tx := Some (readWriteTransaction 3 None False), retryAborts := False\<rparr>"
       "demoHelpers\<lparr>tx_Rollback := (\<lambda>t c rs. (Some (ClientError 4), c, rs))\<rparr>" "[]"]
  by (simp add: demoConn_def demoHelpers_def demoRollback_def closeReadWrite_def Transactional_def)

text \<open>
  What the two guarded methods do when the \<open>closed\<close> flag is set.
\<close>

lemma closed_flag_reported:
  assumes "closed c"
  shows "Ping h c rs = (Some ErrBadConn, c, rs)
         \<and> ResetSession h c rs = (Some ErrBadConn, c, rs)
         \<and> \<not> IsValid c"
  using assms by (simp add: Ping_def ResetSession_def IsValid_def)

subsection \<open>Descriptors that do not parse\<close>

lemma extractConnectorConfig_empty: "extractConnectorConfig lib [] = Panics ''index out of range''"
  by (simp add: extractConnectorConfig_def FindStringSubmatch_def dsnRegExp_def SubexpNames_def lower_az_def upper_AZ_def digit_09_def word_class_def)

lemma no_match_panics:
  "FindStringSubmatch dsnRegExp name = [] \<Longrightarrow> extractConnectorConfig lib name = Panics ''index out of range''"
  by (simp add: extractConnectorConfig_def dsnRegExp_def SubexpNames_def enumerate_eq_zip upt_rec)

lemma Open_no_match_panics:
  assumes "FindStringSubmatch dsnRegExp name = []" and "connectors w name = None"
  shows "Open env lib name w rs = Panics ''index out of range''"
  using assms by (simp add: Open_def newConnector_def no_match_panics)

lemma demo_SubexpNames:
  "SubexpNames dsnRegExp =
     [[], [], ''HOSTGROUP'', ''PROJECTGROUP'', [], [], [], [], ''INSTANCEGROUP'', [], [],
      ''DATABASEGROUP'', [], [], [], ''PARAMSGROUP'']"
  by code_simp

lemma malformed_match:
  "FindStringSubmatch dsnRegExp ''projects/p;foo'' =
     [''projects/p;foo'', [], [], ''p'', ''p'', ''p'', [], [], [], [], [], [], [], '';foo'', '';'', ''foo'']"
  by code_simp

lemma malformed_config:
  "\<exists>cfg. extractConnectorConfig lib ''projects/p;foo'' =
     Returns (cfg, Some (SpannerError InvalidArgument ''invalid connection property: foo''))"
  by (simp add: extractConnectorConfig_def malformed_match demo_SubexpNames enumerate_eq_zip upt_rec
      lookup_def extractConnectorParams_def SplitN2_def)

lemma Open_malformed_parameter:
  "Open env lib ''projects/p;foo'' emptyWorld rs =
     Returns ((None, Some (SpannerError InvalidArgument ''invalid connection property: foo'')),
              emptyWorld, rs)"
  using malformed_config [of lib]
  by (auto simp: Open_def newConnector_def emptyWorld_def)

text \<open>
  C2, on the empty descriptor: the regular expression finds no match, \<open>FindStringSubmatch\<close>
  returns nil, and \<open>extractConnectorConfig\<close> indexes that nil slice for the first named group.
  \<open>Open\<close> and \<open>OpenConnector\<close> panic instead of returning an \<open>InvalidArgument\<close> error, whereas a
  malformed parameter list is reported as \<open>InvalidArgument\<close> (\<open>Open_malformed_parameter\<close>).
\<close>

theorem Open_unparseable_panics:
  "Open env lib [] emptyWorld rs = Panics ''index out of range''
   \<and> OpenConnector lib [] emptyWorld = Panics ''index out of range''"
  by (simp add: Open_def OpenConnector_def newConnector_def emptyWorld_def extractConnectorConfig_empty)

subsection \<open>Sharing and counting connectors\<close>

lemma sless_32: "(0::32 word) <s 1" "(0::32 word) <s 2 - 1" "\<not> (0::32 word) <s 1 - 1"
  by (simp_all add: word_sless_alt)

lemma openDriverConn_initialised:
  assumes "a < length (heap w)" and "initClient (heap w ! a)"
      and "clientErr (heap w ! a) = None" and "adminClientErr (heap w ! a) = None"
  shows "\<exists>c. openDriverConn env a w rs =
           Returns ((Some c, None),
                    w\<lparr>heap := (heap w)[a := (heap w ! a)\<lparr>connCount := connCount (heap w ! a) + 1\<rparr>]\<rparr>, rs)
         \<and> connector c = a \<and> client c = connector_client (heap w ! a)
         \<and> adminClient c = connector_adminClient (heap w ! a)"
  using assms by (simp add: openDriverConn_def Let_def)

lemma newConnector_registered:
  "connectors w name = Some a \<Longrightarrow> newConnector lib name w = Returns ((Some a, None), w)"
  by (simp add: newConnector_def)

lemma newConnector_fresh:
  assumes "connectors w name = None" and "validDescriptor lib name"
  shows "\<exists>k. newConnector lib name w =
           Returns ((Some (length (heap w)), None),
                    w\<lparr>connectors := (connectors w)(name \<mapsto> length (heap w)), heap := heap w @ [k]\<rparr>)
         \<and> dsn k = name \<and> \<not> initClient k \<and> connCount k = 0"
  using assms
  by (auto simp: newConnector_def validDescriptor_def Let_def
      split: go.splits prod.splits option.splits)

lemma Open_success:
  assumes "Open env lib name w rs = Returns ((Some c1, None), w1, rs1)"
  shows "connectors w1 name = Some (connector c1) \<and> connector c1 < length (heap w1)
         \<and> initClient (heap w1 ! connector c1)
         \<and> clientErr (heap w1 ! connector c1) = None
         \<and> adminClientErr (heap w1 ! connector c1) = None
         \<and> client c1 = connector_client (heap w1 ! connector c1)
         \<and> adminClient c1 = connector_adminClient (heap w1 ! connector c1)"
  using assms
  by (auto simp: Open_def newConnector_def openDriverConn_def initClients_def Let_def
      split: go.splits prod.splits option.splits if_splits)

lemma Open_success_fresh:
  assumes "connectors w name = None"
      and "Open env lib name w rs = Returns ((Some c1, None), w1, rs1)"
  shows "validDescriptor lib name \<and> connector c1 = length (heap w)
         \<and> length (heap w1) = Suc (length (heap w))
         \<and> dsn (heap w1 ! connector c1) = name
         \<and> connCount (heap w1 ! connector c1) = 1
         \<and> client c1 = Suc (length rs) \<and> adminClient c1 = Suc (Suc (length rs))
         \<and> length rs1 = Suc (Suc (length rs))"
  using assms
  by (auto simp: Open_def newConnector_def openDriverConn_def initClients_def Let_def
      validDescriptor_def
      split: go.splits prod.splits option.splits if_splits)

lemma Close_keep:
  assumes "connector c < length (heap w)"
      and "0 <s connCount (heap w ! connector c) - 1"
  shows "Close env c w rs =
           Returns (None, c,
             w\<lparr>heap := (heap w)[connector c :=
                  (heap w ! connector c)\<lparr>connCount := connCount (heap w ! connector c) - 1\<rparr>]\<rparr>, rs)"
  using assms by (simp add: Close_def Let_def)

lemma Close_last:
  assumes "connector c < length (heap w)"
      and "\<not> 0 <s connCount (heap w ! connector c) - 1"
  shows "Close env c w rs =
           Returns (onAdminClose env (rs @ [Client_Close (client c), AdminClient_Close (adminClient c)]), c,
             w\<lparr>heap := (heap w)[connector c :=
                  (heap w ! connector c)\<lparr>connCount := connCount (heap w ! connector c) - 1\<rparr>],
               connectors := (connectors w)(dsn (heap w ! connector c) := None)\<rparr>,
             rs @ [Client_Close (client c), AdminClient_Close (adminClient c)])"
  using assms by (simp add: Close_def Let_def)

lemma Open_success_fresh_third:
  assumes unreg4: "connectors w4 name = None"
      and o3: "Open env lib name w4 rs4 = Returns ((Some c3, None), w5, rs5)"
      and a: "a < length (heap w4)"
      and cl: "cl < Suc (length rs4)" and acl: "acl < Suc (length rs4)"
  shows "connector c3 \<noteq> a \<and> client c3 \<noteq> cl \<and> adminClient c3 \<noteq> acl
         \<and> connectors w5 name = Some (connector c3)
         \<and> connCount (heap w5 ! connector c3) = 1"
proof -
  from Open_success_fresh [OF unreg4 o3]
  have 1: "connector c3 = length (heap w4)" and 2: "connCount (heap w5 ! connector c3) = 1"
    and 3: "client c3 = Suc (length rs4)" and 4: "adminClient c3 = Suc (Suc (length rs4))"
    by blast+
  from Open_success [OF o3] have 5: "connectors w5 name = Some (connector c3)" by blast
  from 1 a have "connector c3 \<noteq> a" by simp
  moreover from 3 cl have "client c3 \<noteq> cl" by simp
  moreover from 4 acl have "adminClient c3 \<noteq> acl" by simp
  ultimately show ?thesis using 2 5 by blast
qed

lemma scenario_unregistered:
  assumes unreg: "connectors w name = None"
      and o1: "Open env lib name w rs = Returns ((Some c1, None), w1, rs1)"
      and c2: "connector c2 = connector c1" "client c2 = client c1" "adminClient c2 = adminClient c1"
      and w2: "w2 = w1\<lparr>heap := (heap w1)[connector c1 :=
                 (heap w1 ! connector c1)\<lparr>connCount := connCount (heap w1 ! connector c1) + 1\<rparr>]\<rparr>"
  shows "\<exists>w3 w4 e.
           connCount (heap w1 ! connector c1) = 1
         \<and> connCount (heap w2 ! connector c1) = 2
         \<and> Close env c1 w2 rs1 = Returns (None, c1, w3, rs1)
         \<and> connCount (heap w3 ! connector c1) = 1
         \<and> connectors w3 name = Some (connector c1)
         \<and> Close env c2 w3 rs1 =
             Returns (e, c2, w4, rs1 @ [Client_Close (client c1), AdminClient_Close (adminClient c1)])
         \<and> connCount (heap w4 ! connector c1) = 0
         \<and> connectors w4 name = None
         \<and> (\<forall>c3 w5 rs5.
               Open env lib name w4 (rs1 @ [Client_Close (client c1), AdminClient_Close (adminClient c1)]) =
                 Returns ((Some c3, None), w5, rs5) \<longrightarrow>
               connector c3 \<noteq> connector c1 \<and> client c3 \<noteq> client c1
               \<and> adminClient c3 \<noteq> adminClient c1
               \<and> connectors w5 name = Some (connector c3)
               \<and> connCount (heap w5 ! connector c3) = 1)"
proof -
  define a where "a = connector c1"
  define k where "k = heap w1 ! a"
  from Open_success [OF o1]
  have reg: "connectors w1 name = Some a" and inh: "a < length (heap w1)"
    unfolding a_def by blast+
  from Open_success_fresh [OF unreg o1]
  have one: "connCount k = 1" and dsn: "dsn k = name"
    and h1: "client c1 = Suc (length rs)" "adminClient c1 = Suc (Suc (length rs))"
    and len1: "length rs1 = Suc (Suc (length rs))"
    unfolding a_def k_def by blast+
  have w2': "w2 = w1\<lparr>heap := (heap w1)[a := k\<lparr>connCount := 2\<rparr>]\<rparr>"
    using w2 one unfolding a_def k_def by simp
  have k2: "heap w2 ! a = k\<lparr>connCount := 2\<rparr>" and inh2: "a < length (heap w2)"
    and reg2: "connectors w2 = connectors w1"
    using inh by (simp_all add: w2')
  define w3 where "w3 = w1\<lparr>heap := (heap w1)[a := k\<lparr>connCount := 1\<rparr>]\<rparr>"
  have close1: "Close env c1 w2 rs1 = Returns (None, c1, w3, rs1)"
    using Close_keep [of c1 w2 env rs1] inh2 k2
    by (simp add: a_def [symmetric] sless_32 w3_def w2')
  have k3: "heap w3 ! a = k\<lparr>connCount := 1\<rparr>" and inh3: "a < length (heap w3)"
    and reg3: "connectors w3 name = Some a"
    using inh reg by (simp_all add: w3_def)
  define rs4 where "rs4 = rs1 @ [Client_Close (client c1), AdminClient_Close (adminClient c1)]"
  define w4 where "w4 = w1\<lparr>heap := (heap w1)[a := k\<lparr>connCount := 0\<rparr>],
                          connectors := (connectors w1)(name := None)\<rparr>"
  have close2: "Close env c2 w3 rs1 = Returns (onAdminClose env rs4, c2, w4, rs4)"
    using Close_last [of c2 w3 env rs1] inh3 k3 dsn c2
    by (simp add: a_def [symmetric] sless_32 w3_def w4_def rs4_def)
  have k4: "connCount (heap w4 ! a) = 0" and unreg4: "connectors w4 name = None"
    and inh4: "a < length (heap w4)"
    using inh by (simp_all add: w4_def)
  have hs: "client c1 < Suc (length rs4)" "adminClient c1 < Suc (length rs4)"
    using h1 len1 by (simp_all add: rs4_def)
  have third: "\<forall>c3 w5 rs5.
      Open env lib name w4 rs4 = Returns ((Some c3, None), w5, rs5) \<longrightarrow>
        connector c3 \<noteq> a \<and> client c3 \<noteq> client c1 \<and> adminClient c3 \<noteq> adminClient c1
        \<and> connectors w5 name = Some (connector c3)
        \<and> connCount (heap w5 ! connector c3) = 1"
    using Open_success_fresh_third [OF unreg4 _ inh4 hs] by blast
  have c1: "connCount (heap w1 ! a) = 1" using one by (simp add: k_def)
  have c2': "connCount (heap w2 ! a) = 2" using k2 by simp
  have c3': "connCount (heap w3 ! a) = 1" using k3 by simp
  show ?thesis
    unfolding a_def [symmetric] rs4_def [symmetric]
    using c1 c2' close1 c3' reg3 close2 k4 unreg4 third by blast
qed

text \<open>
  On the path through \<open>Open\<close> alone, from a descriptor that is not registered: two opens
  share the connector and its clients, the count goes 1, 2, 1, 0 over open, open, close,
  close, and only the second close tears down.
\<close>

lemma connector_shared_and_counted:
  assumes "Open env lib name w rs = Returns ((Some c1, None), w1, rs1)"
  shows "\<exists>c2 w2.
           Open env lib name w1 rs1 = Returns ((Some c2, None), w2, rs1)
         \<and> connector c2 = connector c1 \<and> client c2 = client c1 \<and> adminClient c2 = adminClient c1
         \<and> connectors w1 name = Some (connector c1) \<and> connectors w2 = connectors w1
         \<and> connCount (heap w2 ! connector c1) = connCount (heap w1 ! connector c1) + 1
         \<and> (connectors w name = None \<longrightarrow>
              (\<exists>w3 w4 e.
                 connCount (heap w1 ! connector c1) = 1
               \<and> connCount (heap w2 ! connector c1) = 2
               \<and> Close env c1 w2 rs1 = Returns (None, c1, w3, rs1)
               \<and> connCount (heap w3 ! connector c1) = 1
               \<and> connectors w3 name = Some (connector c1)
               \<and> Close env c2 w3 rs1 =
                   Returns (e, c2, w4, rs1 @ [Client_Close (client c1), AdminClient_Close (adminClient c1)])
               \<and> connCount (heap w4 ! connector c1) = 0
               \<and> connectors w4 name = None
               \<and> (\<forall>c3 w5 rs5.
                     Open env lib name w4 (rs1 @ [Client_Close (client c1), AdminClient_Close (adminClient c1)]) =
                       Returns ((Some c3, None), w5, rs5) \<longrightarrow>
                     connector c3 \<noteq> connector c1 \<and> client c3 \<noteq> client c1
                     \<and> adminClient c3 \<noteq> adminClient c1
                     \<and> connectors w5 name = Some (connector c3)
                     \<and> connCount (heap w5 ! connector c3) = 1)))"
proof -
  define a where "a = connector c1"
  define k where "k = heap w1 ! a"
  from Open_success [OF assms]
  have reg: "connectors w1 name = Some a" and inh: "a < length (heap w1)"
    and ini: "initClient k" and ce: "clientErr k = None" and ae: "adminClientErr k = None"
    and cl: "client c1 = connector_client k" and acl: "adminClient c1 = connector_adminClient k"
    unfolding a_def k_def by blast+
  define w2 where "w2 = w1\<lparr>heap := (heap w1)[a := k\<lparr>connCount := connCount k + 1\<rparr>]\<rparr>"
  from openDriverConn_initialised [OF inh, of env rs1] ini ce ae
  obtain c2 where o2: "openDriverConn env a w1 rs1 = Returns ((Some c2, None), w2, rs1)"
    and c2: "connector c2 = a" "client c2 = connector_client k"
      "adminClient c2 = connector_adminClient k"
    unfolding k_def w2_def by blast
  have open2: "Open env lib name w1 rs1 = Returns ((Some c2, None), w2, rs1)"
    by (simp add: Open_def newConnector_registered [OF reg] o2)
  have cnt2: "connCount (heap w2 ! a) = connCount (heap w1 ! a) + 1"
    using inh by (simp add: w2_def k_def)
  have reg2: "connectors w2 = connectors w1"
    by (simp add: w2_def)
  have c2': "connector c2 = connector c1" "client c2 = client c1" "adminClient c2 = adminClient c1"
    using c2 cl acl by (simp_all add: a_def)
  have w2': "w2 = w1\<lparr>heap := (heap w1)[connector c1 :=
                 (heap w1 ! connector c1)\<lparr>connCount := connCount (heap w1 ! connector c1) + 1\<rparr>]\<rparr>"
    by (simp add: w2_def k_def a_def)
  have tail: "connectors w name = None \<longrightarrow>
              (\<exists>w3 w4 e.
                 connCount (heap w1 ! connector c1) = 1
               \<and> connCount (heap w2 ! connector c1) = 2
               \<and> Close env c1 w2 rs1 = Returns (None, c1, w3, rs1)
               \<and> connCount (heap w3 ! connector c1) = 1
               \<and> connectors w3 name = Some (connector c1)
               \<and> Close env c2 w3 rs1 =
                   Returns (e, c2, w4, rs1 @ [Client_Close (client c1), AdminClient_Close (adminClient c1)])
               \<and> connCount (heap w4 ! connector c1) = 0
               \<and> connectors w4 name = None
               \<and> (\<forall>c3 w5 rs5.
                     Open env lib name w4 (rs1 @ [Client_Close (client c1), AdminClient_Close (adminClient c1)]) =
                       Returns ((Some c3, None), w5, rs5) \<longrightarrow>
                     connector c3 \<noteq> connector c1 \<and> client c3 \<noteq> client c1
                     \<and> adminClient c3 \<noteq> adminClient c1
                     \<and> connectors w5 name = Some (connector c3)
                     \<and> connCount (heap w5 ! connector c3) = 1))"
    using scenario_unregistered [OF _ assms c2' w2'] by blast
  have reg': "connectors w1 name = Some (connector c1)"
    using reg by (simp add: a_def)
  have cnt2': "connCount (heap w2 ! connector c1) = connCount (heap w1 ! connector c1) + 1"
    using cnt2 by (simp add: a_def)
  show ?thesis
    by (intro exI [of _ c2] exI [of _ w2] conjI open2 c2' reg' reg2 cnt2' tail)
qed

lemma demo_match:
  "FindStringSubmatch dsnRegExp demoName =
     [''projects/p/instances/i/databases/d'', [], [], ''p'', ''p'', ''p'', [],
      ''/instances/i/databases/d'', ''i'', ''i'', ''/databases/d'', ''d'', ''d'', [], [], []]"
  by code_simp

lemma demo_config:
  "extractConnectorConfig lib demoName =
     Returns (\<lparr>host = [], project = ''p'', cfg_instance = ''i'', cfg_database = ''d'',
               params = Map.empty\<rparr>, None)"
  by (simp add: extractConnectorConfig_def demo_match demo_SubexpNames enumerate_eq_zip upt_rec
      lookup_def extractConnectorParams_def)

lemma demo_open:
  "Open demoEnv demoLib demoName emptyWorld [] = Returns ((Some demoConn, None), demoWorld, demoLog)"
  by (simp add: Open_def newConnector_def emptyWorld_def demo_config [unfolded demoName_def]
      openDriverConn_def userAgent_def
      initClients_def connectorPool_def connectorOptions_def connectorRetry_def demoEnv_def
      demoConn_def demoWorld_def demoLog_def demoConnector_def demoName_def Let_def)

subsection \<open>Calls after \<open>Close\<close>\<close>

lemma Close_keeps_conn:
  "Close env c w rs = Returns (e, c', w', rs') \<Longrightarrow> c' = c"
  by (auto simp: Close_def Let_def split: if_splits)

lemma openDriverConn_not_closed:
  "openDriverConn env a w rs = Returns ((Some c, None), w', rs') \<Longrightarrow> \<not> closed c \<and> tx c = None"
  by (auto simp: openDriverConn_def Let_def split: if_splits prod.splits)

lemma ResetSession_after_Close:
  assumes "openDriverConn env a w rs = Returns ((Some c, None), w1, rs1)"
      and "Close env c w1 rs1 = Returns (e, c', w2, rs2)"
  shows "\<not> closed c' \<and> IsValid c' \<and> fst (ResetSession h c' rs3) = None"
proof -
  from openDriverConn_not_closed [OF assms(1)] have "\<not> closed c" "tx c = None" by simp_all
  moreover from Close_keeps_conn [OF assms(2)] have "c' = c" .
  ultimately show ?thesis by (simp add: ResetSession_def IsValid_def)
qed

text \<open>
  C3: a closed connection does not report \<open>ErrBadConn\<close>. No statement of the driver assigns
  the \<open>closed\<close> flag: \<open>openDriverConn\<close> leaves it unset and \<open>Close\<close> returns the connection as
  it was. After \<open>Open\<close> and then \<open>Close\<close> of the only connection of a descriptor (the clients
  are closed, the descriptor is unregistered), \<open>ResetSession\<close> returns nil, \<open>Ping\<close> sends its
  query and returns nil, and \<open>IsValid\<close> is true, where the claim and the comments of \<open>Ping\<close>
  and \<open>ResetSession\<close> require the bad-connection sentinel.
\<close>

theorem calls_after_Close:
  "Open demoEnv demoLib demoName emptyWorld [] = Returns ((Some demoConn, None), demoWorld, demoLog)
   \<and> (case Close demoEnv demoConn demoWorld demoLog of
          Returns (e, c', w', rs') \<Rightarrow>
            c' = demoConn \<and> \<not> closed c' \<and> IsValid c'
            \<and> rs' = demoLog @ [Client_Close 1, AdminClient_Close 2]
            \<and> connectors w' demoName = None
            \<and> ResetSession demoHelpers c' rs' = (None, demoConn, rs')
            \<and> Ping demoHelpers c' rs' =
                (None, demoConn,
                 rs' @ [Single_Query 1 \<lparr>SQL = ''SELECT 1'', Params = []\<rparr> TimestampBoundZero])
        | Panics msg \<Rightarrow> False)"
proof (intro conjI)
  show "Open demoEnv demoLib demoName emptyWorld [] =
          Returns ((Some demoConn, None), demoWorld, demoLog)"
    by (rule demo_open)
  show "case Close demoEnv demoConn demoWorld demoLog of
          Returns (e, c', w', rs') \<Rightarrow>
            c' = demoConn \<and> \<not> closed c' \<and> IsValid c'
            \<and> rs' = demoLog @ [Client_Close 1, AdminClient_Close 2]
            \<and> connectors w' demoName = None
            \<and> ResetSession demoHelpers c' rs' = (None, demoConn, rs')
            \<and> Ping demoHelpers c' rs' =
                (None, demoConn,
                 rs' @ [Single_Query 1 \<lparr>SQL = ''SELECT 1'', Params = []\<rparr> TimestampBoundZero])
        | Panics msg \<Rightarrow> False"
    by (simp add: Close_def demoWorld_def demoConnector_def demoConn_def demoEnv_def
        demoHelpers_def ResetSession_def resetFields_def IsValid_def Ping_def QueryContext_def
        queryInSingleUse_def Transactional_def sless_32 word_sless_alt Let_def)
qed

subsection \<open>A connector used again after its teardown\<close>

text \<open>
  C4: connections opened with one descriptor do not always share one connector, and a
  close that does not bring a count to zero can remove a connector from the registry.
  \<open>OpenConnector\<close> returns a connector on which \<open>Connect\<close> may be called again and again.
  After the close of its last connection the connector is unregistered and its clients
  are closed, but a further \<open>Connect\<close> on it succeeds: the \<open>sync.Once\<close> has run, so the
  new connection gets the closed client handles, and the connector is not registered
  again. An \<open>Open\<close> with the same descriptor then builds a second connector with new
  clients; and closing the connection of the first connector deletes the registry entry
  of the descriptor, which is now the second connector with its count still 1.
\<close>

theorem stale_connector_after_teardown:
  "(case OpenConnector demoLib demoName emptyWorld of
      Returns ((Some a, None), w1) \<Rightarrow>
        (case Connect demoEnv a w1 [] of
           Returns ((Some c1, None), w2, rs2) \<Rightarrow>
             (case Close demoEnv c1 w2 rs2 of
                Returns (e3, c1', w3, rs3) \<Rightarrow>
                  connectors w3 demoName = None
                  \<and> rs3 = rs2 @ [Client_Close (client c1), AdminClient_Close (adminClient c1)]
                  \<and> (case Connect demoEnv a w3 rs3 of
                        Returns ((Some c2, None), w4, rs4) \<Rightarrow>
                          connector c2 = a \<and> client c2 = client c1 \<and> adminClient c2 = adminClient c1
                          \<and> rs4 = rs3 \<and> connectors w4 demoName = None
                          \<and> connCount (heap w4 ! a) = 1
                          \<and> (case Open demoEnv demoLib demoName w4 rs4 of
                                Returns ((Some c3, None), w5, rs5) \<Rightarrow>
                                  connector c3 \<noteq> connector c2 \<and> client c3 \<noteq> client c2
                                  \<and> adminClient c3 \<noteq> adminClient c2
                                  \<and> connectors w5 demoName = Some (connector c3)
                                  \<and> connCount (heap w5 ! connector c2) = 1
                                  \<and> connCount (heap w5 ! connector c3) = 1
                                  \<and> (case Close demoEnv c2 w5 rs5 of
                                        Returns (e6, c2', w6, rs6) \<Rightarrow>
                                          connectors w6 demoName = None
                                          \<and> connCount (heap w6 ! connector c3) = 1
                                          \<and> rs6 = rs5 @ [Client_Close (client c1),
                                                          AdminClient_Close (adminClient c1)]
                                      | Panics msg \<Rightarrow> False)
                              | _ \<Rightarrow> False)
                      | _ \<Rightarrow> False)
              | Panics msg \<Rightarrow> False)
         | _ \<Rightarrow> False)
    | _ \<Rightarrow> False)"
  by code_simp

subsection \<open>Replay after an abort\<close>

lemma replay_differs:
  assumes "\<forall>i<length pre. db ctx (done @ map fst (take (Suc i) pre)) = snd (pre ! i)
                            \<and> snd (pre ! i) \<noteq> AbortReply"
      and "db ctx (done @ map fst pre @ [st]) \<noteq> r"
      and "db ctx (done @ map fst pre @ [st]) \<noteq> AbortReply"
  shows "replay db ctx done (pre @ (st, r) # post) = Differs"
  using assms
proof (induction pre arbitrary: "done")
  case Nil
  then show ?case by (simp add: Let_def)
next
  case (Cons p pre)
  obtain s0 r0 where p: "p = (s0, r0)" by (cases p)
  from Cons.prems(1) [rule_format, of 0] p
  have first: "db ctx (done @ [s0]) = r0" "r0 \<noteq> AbortReply" by simp_all
  have rest: "\<forall>i<length pre. db ctx ((done @ [s0]) @ map fst (take (Suc i) pre)) = snd (pre ! i)
                            \<and> snd (pre ! i) \<noteq> AbortReply"
  proof (intro allI impI)
    fix i assume "i < length pre"
    then have "Suc i < length (p # pre)" by simp
    from Cons.prems(1) [rule_format, OF this] p
    show "db ctx ((done @ [s0]) @ map fst (take (Suc i) pre)) = snd (pre ! i)
          \<and> snd (pre ! i) \<noteq> AbortReply" by simp
  qed
  have "replay db ctx (done @ [s0]) (pre @ (st, r) # post) = Differs"
    using Cons.IH [OF rest] Cons.prems(2,3) p by simp
  then show ?case using first p by (simp add: Let_def)
qed

lemma retry_after_aborts:
  assumes "\<forall>j<m. replay db (fresh + j) [] (rwLog t) = AbortedAgain"
      and "replay db (fresh + m) [] (rwLog t) = Differs"
      and "m < attempts"
  shows "retry db attempts fresh t =
           (Inl ErrAbortedDueToConcurrentModification, map (\<lambda>j. fresh + j) [0..<Suc m])"
  using assms
proof (induction m arbitrary: fresh attempts)
  case 0
  then obtain n where "attempts = Suc n" by (cases attempts) auto
  with 0 show ?case by simp
next
  case (Suc m)
  then obtain n where n: "attempts = Suc n" by (cases attempts) auto
  from Suc.prems(1) have ab: "replay db fresh [] (rwLog t) = AbortedAgain"
    by (metis add.right_neutral zero_less_Suc)
  have 1: "\<forall>j<m. replay db (Suc fresh + j) [] (rwLog t) = AbortedAgain"
    using Suc.prems(1) by (metis Suc_less_eq add_Suc_shift)
  have 2: "replay db (Suc fresh + m) [] (rwLog t) = Differs"
    using Suc.prems(2) by simp
  have 3: "m < n" using Suc.prems(3) n by simp
  have "map (\<lambda>j. fresh + j) [0..<Suc (Suc m)] = fresh # map (\<lambda>j. Suc fresh + j) [0..<Suc m]"
    by (simp add: upt_rec [of 0] map_Suc_upt [symmetric] del: upt_Suc)
  with Suc.IH [OF 1 2 3] ab n show ?case by simp
qed

text \<open>
  C1: during the retry of an aborted read-write transaction, whatever the retry flag of the
  transaction, if some replayed statement returns a result that differs from the logged
  one (the statements before it having returned their logged results), the retry ends with
  \<open>ErrAbortedDueToConcurrentModification\<close> and opens no further context. This holds when the
  differing replay is the first one and when it follows replays that were aborted; and it
  is what a transaction with retries enabled returns when the database reports an Abort.
\<close>

theorem retry_concurrent_modification:
  assumes "rwLog t = pre @ (st, r) # post"
      and "\<forall>j<m. replay db (fresh + j) [] (rwLog t) = AbortedAgain"
      and "m < attempts"
      and "\<forall>i<length pre. db (fresh + m) (map fst (take (Suc i) pre)) = snd (pre ! i)
                            \<and> snd (pre ! i) \<noteq> AbortReply"
      and "db (fresh + m) (map fst pre @ [st]) \<noteq> r"
      and "db (fresh + m) (map fst pre @ [st]) \<noteq> AbortReply"
  shows "retry db attempts fresh (t\<lparr>rwRetryAborts := flag\<rparr>) =
           (Inl ErrAbortedDueToConcurrentModification, map (\<lambda>j. fresh + j) [0..<Suc m])
         \<and> onAbort db attempts fresh (t\<lparr>rwRetryAborts := True\<rparr>) =
           (Inl ErrAbortedDueToConcurrentModification, map (\<lambda>j. fresh + j) [0..<Suc m])"
proof -
  have d: "replay db (fresh + m) [] (rwLog t) = Differs"
    using replay_differs [of pre db "fresh + m" "[]" st r post] assms(1,4,5,6) by simp
  have "retry db attempts fresh (t\<lparr>rwRetryAborts := b\<rparr>) =
          (Inl ErrAbortedDueToConcurrentModification, map (\<lambda>j. fresh + j) [0..<Suc m])" for b
    using retry_after_aborts [of m db fresh "t\<lparr>rwRetryAborts := b\<rparr>" attempts] assms(2,3) d
    by simp
  then show ?thesis by (simp add: onAbort_def)
qed

theorem retry_concurrent_modification_witness:
  "retry demoDatabase 5 1 (demoTransaction\<lparr>rwRetryAborts := True\<rparr>) =
     (Inl ErrAbortedDueToConcurrentModification, [1, 2])
   \<and> retry demoDatabase 5 1 (demoTransaction\<lparr>rwRetryAborts := False\<rparr>) =
     (Inl ErrAbortedDueToConcurrentModification, [1, 2])
   \<and> onAbort demoDatabase 5 1 (demoTransaction\<lparr>rwRetryAborts := True\<rparr>) =
     (Inl ErrAbortedDueToConcurrentModification, [1, 2])"
  using
    retry_concurrent_modification [of demoTransaction "[]" demoStatement "Rows [[VInt64 1]]" "[]"
      1 demoDatabase 1 5 True]
    retry_concurrent_modification [of demoTransaction "[]" demoStatement "Rows [[VInt64 1]]" "[]"
      1 demoDatabase 1 5 False]
  by (simp add: demoTransaction_def demoDatabase_def Let_def)

end
